theory Spec2Isabelle
  imports Complex_Main "HOL-Library.Sublist"
begin

section \<open>Data model of \<open>src/app/page.tsx\<close>\<close>

text \<open>
  JavaScript numbers are modelled as \<^typ>\<open>real\<close>: the values the typed code handles are
  finite numbers, and \<open>NaN\<close> and the infinities are outside the model.  Where a field
  declared as a number can hold \<open>null\<close> at run time (the answer of the forecast service),
  it is a \<^typ>\<open>real option\<close>.  \<open>Math.max\<close> and \<open>Math.min\<close> are \<^const>\<open>max\<close> and
  \<^const>\<open>min\<close>.  Strings are byte lists; a character beyond ASCII stands as its UTF-8
  bytes.
\<close>

text \<open>\<open>interface RiskData\<close>, and its keys in declaration order (\<open>keyof RiskData\<close>).\<close>

record RiskData =
  hot :: real
  cold :: real
  windy :: real
  wet :: real
  uncomfortable :: real

datatype risk_key = Hot | Cold | Windy | Wet | Uncomfortable

text \<open>\<open>interface NASAWeatherData\<close>.\<close>

record NASAWeatherData =
  temperature :: real
  precipitation :: real
  humidity :: real
  windSpeed :: real
  cloudCover :: real
  lat :: real
  lon :: real
  locationName :: string

section \<open>Risk scorer: \<open>calculateRisksFromRealData\<close>\<close>

text \<open>Reading and writing a property of the object \<open>baseRisks\<close> by key: \<open>baseRisks[k]\<close>.\<close>

fun get_risk :: "RiskData \<Rightarrow> risk_key \<Rightarrow> real" where
  "get_risk r Hot = hot r"
| "get_risk r Cold = cold r"
| "get_risk r Windy = windy r"
| "get_risk r Wet = wet r"
| "get_risk r Uncomfortable = uncomfortable r"

fun set_risk :: "risk_key \<Rightarrow> real \<Rightarrow> RiskData \<Rightarrow> RiskData" where
  "set_risk Hot v r = r\<lparr>hot := v\<rparr>"
| "set_risk Cold v r = r\<lparr>cold := v\<rparr>"
| "set_risk Windy v r = r\<lparr>windy := v\<rparr>"
| "set_risk Wet v r = r\<lparr>wet := v\<rparr>"
| "set_risk Uncomfortable v r = r\<lparr>uncomfortable := v\<rparr>"

text \<open>The object literal \<open>baseRisks\<close> (lines 240-246).\<close>

definition baseRisks :: "NASAWeatherData \<Rightarrow> RiskData" where
  "baseRisks weatherData =
     \<lparr> hot = max 5 (min 95 ((temperature weatherData - 25) * 3)),
       cold = max 5 (min 95 ((5 - temperature weatherData) * 4)),
       windy = max 5 (min 95 (windSpeed weatherData * 2)),
       wet = max 5 (min 95 (precipitation weatherData * 10 + humidity weatherData * (3 / 10))),
       uncomfortable =
         max 5 (min 95 (\<bar>temperature weatherData - 20\<bar> * 2 + humidity weatherData * (2 / 10))) \<rparr>"

text \<open>
  The table \<open>eventAdjustments\<close> (lines 249-256): a \<open>Partial<RiskData>\<close> is the list of its
  own keys with their values, in insertion order, which is the order of \<open>Object.keys\<close>.
\<close>

definition eventAdjustments :: "(string \<times> (risk_key \<times> real) list) list" where
  "eventAdjustments =
     [(''vacation'', [(Hot, 10), (Wet, 15), (Uncomfortable, 5)]),
      (''hiking'', [(Hot, 15), (Cold, 10), (Windy, 10), (Wet, 20)]),
      (''fishing'', [(Windy, 20), (Wet, 25), (Uncomfortable, 10)]),
      (''picnic'', [(Wet, 30), (Windy, 15), (Hot, 10)]),
      (''sports'', [(Hot, 25), (Wet, 20), (Uncomfortable, 15)]),
      (''camping'', [(Cold, 20), (Wet, 25), (Windy, 10), (Uncomfortable, 15)])]"

text \<open>
  The body of the \<open>forEach\<close> (line 261):
  \<open>baseRisks[k] = Math.max(5, Math.min(95, baseRisks[k] + (adjustments[k] || 0)))\<close>.
\<close>

definition adjust_key :: "(risk_key \<times> real) list \<Rightarrow> risk_key \<Rightarrow> RiskData \<Rightarrow> RiskData" where
  "adjust_key adjustments k r =
     set_risk k
       (max 5 (min 95 (get_risk r k + (case map_of adjustments k of Some v \<Rightarrow> v | None \<Rightarrow> 0)))) r"

text \<open>
  \<open>eventAdjustments[eventType] || {}\<close>: an event type that is no key of the table has
  no adjustment; then the loop over \<open>Object.keys(adjustments)\<close>.
\<close>

definition calculateRisksFromRealData :: "NASAWeatherData \<Rightarrow> string \<Rightarrow> RiskData" where
  "calculateRisksFromRealData weatherData eventType =
     (let adjustments = (case map_of eventAdjustments eventType of Some a \<Rightarrow> a | None \<Rightarrow> [])
      in fold (adjust_key adjustments) (map fst adjustments) (baseRisks weatherData))"

section \<open>Strings and number formatting\<close>

text \<open>
  \<open>String.prototype.toLowerCase\<close> is a function of the platform, with the case mappings of
  Unicode behind it (the Kelvin sign becomes \<open>k\<close>, for one).  The functions that call it
  take it as the parameter \<open>lower\<close>.  What it does to a text of ASCII characters is written
  out: \<open>ascii_toLowerCase\<close> maps \<open>A\<close> to \<open>Z\<close> and nothing else, \<open>ascii_only\<close> says that no
  byte of a text has its top bit set, and \<open>lowers_ascii lower\<close> says that \<open>lower\<close> is
  \<open>ascii_toLowerCase\<close> on such texts, which holds of the platform's function.
\<close>

definition ascii_lower_char :: "char \<Rightarrow> char" where
  "ascii_lower_char c =
     (case map_of (zip ''ABCDEFGHIJKLMNOPQRSTUVWXYZ'' ''abcdefghijklmnopqrstuvwxyz'') c of
        Some l \<Rightarrow> l
      | None \<Rightarrow> c)"

definition ascii_toLowerCase :: "string \<Rightarrow> string" where
  "ascii_toLowerCase s = map ascii_lower_char s"

definition ascii_only :: "string \<Rightarrow> bool" where
  "ascii_only s = list_all (\<lambda>c. \<not> digit7 c) s"

definition lowers_ascii :: "(string \<Rightarrow> string) \<Rightarrow> bool" where
  "lowers_ascii lower = (\<forall>s. ascii_only s \<longrightarrow> lower s = ascii_toLowerCase s)"

text \<open>
  \<open>toUpperCase\<close> of one character; the program applies it to the first character of a key
  of \<open>eventMap\<close> only, a lower-case ASCII letter.
\<close>

definition toUpperCase_char :: "char \<Rightarrow> char" where
  "toUpperCase_char c =
     (case map_of (zip ''abcdefghijklmnopqrstuvwxyz'' ''ABCDEFGHIJKLMNOPQRSTUVWXYZ'') c of
        Some u \<Rightarrow> u
      | None \<Rightarrow> c)"

text \<open>\<open>s.charAt(0).toUpperCase() + s.slice(1)\<close>.\<close>

fun capitalize :: "string \<Rightarrow> string" where
  "capitalize [] = []"
| "capitalize (c # cs) = toUpperCase_char c # cs"

text \<open>\<open>s.includes(keyword)\<close>: the keyword starts at some position of \<open>s\<close>.\<close>

fun str_includes :: "string \<Rightarrow> string \<Rightarrow> bool" where
  "str_includes [] keyword = (keyword = [])"
| "str_includes (c # cs) keyword = (prefix keyword (c # cs) \<or> str_includes cs keyword)"

text \<open>Decimal digits of a natural number, and of an integer (\<open>String(n)\<close> for an integer \<open>n\<close>).\<close>

definition digit_char :: "nat \<Rightarrow> char" where
  "digit_char d = ''0123456789'' ! d"

fun digits_of :: "nat \<Rightarrow> string" where
  "digits_of n = (if 10 \<le> n then digits_of (n div 10) else []) @ [digit_char (n mod 10)]"

declare digits_of.simps [simp del]

definition number_text :: "int \<Rightarrow> string" where
  "number_text i = (if 0 \<le> i then digits_of (nat i) else CHR ''-'' # digits_of (nat (- i)))"

text \<open>
  \<open>Math.round\<close> rounds to the nearest integer, a tie towards plus infinity.
  \<open>x.toFixed(1)\<close> takes the sign off, picks the integer \<open>n\<close> with \<open>n / 10\<close> nearest to \<open>x\<close>
  (the larger one on a tie) and prints it with one digit after the point.  Both are modelled
  below \<open>10^21\<close>, where JavaScript prints plain decimal digits.
\<close>

definition Math_round :: "real \<Rightarrow> int" where
  "Math_round x = \<lfloor>x + 1 / 2\<rfloor>"

definition toFixed1 :: "real \<Rightarrow> string" where
  "toFixed1 x =
     (let n = nat \<lfloor>\<bar>x\<bar> * 10 + 1 / 2\<rfloor>
      in (if x < 0 then ''-'' else []) @ digits_of (n div 10) @ ''.''
           @ [digit_char (n mod 10)])"

text \<open>The characters of the templates that are not ASCII, in UTF-8, and the line feed.\<close>

definition newline :: string where
  "newline = [CHR 0x0A]"

definition degree_sign :: string where
  "degree_sign = [CHR 0xC2, CHR 0xB0]"

definition bullet :: string where
  "bullet = [CHR 0xE2, CHR 0x80, CHR 0xA2]"

definition check_mark_emoji :: string where
  "check_mark_emoji = [CHR 0xE2, CHR 0x9C, CHR 0x85]"

definition warning_emoji :: string where
  "warning_emoji = [CHR 0xE2, CHR 0x9A, CHR 0xA0, CHR 0xEF, CHR 0xB8, CHR 0x8F]"

definition siren_emoji :: string where
  "siren_emoji = [CHR 0xF0, CHR 0x9F, CHR 0x9A, CHR 0xA8]"

definition satellite_emoji :: string where
  "satellite_emoji = [CHR 0xF0, CHR 0x9F, CHR 0x9B, CHR 0xB0, CHR 0xEF, CHR 0xB8, CHR 0x8F]"

definition antenna_emoji :: string where
  "antenna_emoji = [CHR 0xF0, CHR 0x9F, CHR 0x93, CHR 0xA1]"

section \<open>Narrative generator: \<open>simulateGeminiAnalysis\<close>\<close>

record Analysis =
  risks :: RiskData
  analysis :: string
  dataSources :: "string list"

text \<open>\<open>Object.keys(risks)\<close>: the keys of the object literal \<open>baseRisks\<close>, in insertion order.\<close>

definition risk_keys :: "risk_key list" where
  "risk_keys = [Hot, Cold, Windy, Wet, Uncomfortable]"

text \<open>\<open>Math.max(...Object.values(risks))\<close>.\<close>

definition maxRisk :: "RiskData \<Rightarrow> real" where
  "maxRisk r = max (hot r) (max (cold r) (max (windy r) (max (wet r) (uncomfortable r))))"

text \<open>\<open>Object.keys(risks).find(key => risks[key] === maxRisk)\<close>; \<open>None\<close> is \<open>undefined\<close>.\<close>

definition maxRiskKey :: "RiskData \<Rightarrow> risk_key option" where
  "maxRiskKey r = find (\<lambda>key. get_risk r key = maxRisk r) risk_keys"

fun riskLabels :: "risk_key \<Rightarrow> string" where
  "riskLabels Hot = ''extreme heat''"
| "riskLabels Cold = ''freezing temperatures''"
| "riskLabels Windy = ''high winds''"
| "riskLabels Wet = ''heavy precipitation''"
| "riskLabels Uncomfortable = ''uncomfortable conditions''"

text \<open>\<open>riskLabels[maxRiskKey]\<close> inside a template literal.\<close>

definition label_of :: "risk_key option \<Rightarrow> string" where
  "label_of k = (case k of Some key \<Rightarrow> riskLabels key | None \<Rightarrow> ''undefined'')"

definition analysis_header :: "NASAWeatherData \<Rightarrow> string \<Rightarrow> string" where
  "analysis_header weatherData d =
     ''Based on NASA satellite data and atmospheric analysis for '' @ locationName weatherData
       @ '' on '' @ d @ '':'' @ newline @ newline"

text \<open>The three branches on \<open>maxRisk\<close> (lines 223-234), each the text appended to the header.\<close>

definition favorable_text :: "NASAWeatherData \<Rightarrow> string \<Rightarrow> string" where
  "favorable_text weatherData eventType =
     check_mark_emoji @ '' Excellent conditions for '' @ eventType
       @ ''! All weather parameters are within optimal ranges. ''
       @ ''Temperature: '' @ number_text (Math_round (temperature weatherData)) @ degree_sign
       @ ''C, Wind: '' @ number_text (Math_round (windSpeed weatherData))
       @ '' km/h, Precipitation: '' @ toFixed1 (precipitation weatherData) @ ''mm.''"

definition moderate_text :: "NASAWeatherData \<Rightarrow> string \<Rightarrow> RiskData \<Rightarrow> string" where
  "moderate_text weatherData eventType r =
     warning_emoji @ '' Moderate risk of '' @ label_of (maxRiskKey r) @ '' for '' @ eventType
       @ ''. ''
       @ ''Consider preparing for '' @ number_text (Math_round (maxRisk r))
       @ ''% chance of challenging conditions. ''
       @ ''Current forecast: '' @ number_text (Math_round (temperature weatherData))
       @ degree_sign @ ''C, '' @ number_text (Math_round (windSpeed weatherData))
       @ '' km/h winds.''"

definition high_text :: "NASAWeatherData \<Rightarrow> string \<Rightarrow> RiskData \<Rightarrow> string" where
  "high_text weatherData eventType r =
     siren_emoji @ '' High risk of '' @ label_of (maxRiskKey r) @ '' for '' @ eventType @ ''! ''
       @ ''Strongly consider rescheduling due to '' @ number_text (Math_round (maxRisk r))
       @ ''% chance of adverse conditions. ''
       @ ''Forecast shows '' @ number_text (Math_round (temperature weatherData))
       @ degree_sign @ ''C with '' @ toFixed1 (precipitation weatherData)
       @ ''mm precipitation.''"

definition simulateGeminiAnalysis :: "NASAWeatherData \<Rightarrow> string \<Rightarrow> string \<Rightarrow> Analysis" where
  "simulateGeminiAnalysis weatherData eventType d =
     (let r = calculateRisksFromRealData weatherData eventType
      in \<lparr> risks = r,
           analysis =
             analysis_header weatherData d
               @ (if maxRisk r < 30 then favorable_text weatherData eventType
                  else if maxRisk r < 60 then moderate_text weatherData eventType r
                  else high_text weatherData eventType r),
           dataSources =
             [''NASA Global Forecast System (GFS)'', ''Open-Meteo Weather API'',
              ''Historical Climate Patterns'', ''Satellite Atmospheric Analysis''] \<rparr>)"

section \<open>Location resolver: \<open>getCoordinatesFromLocation\<close>\<close>

text \<open>The object \<open>{lat, lon, name}\<close> the resolver returns.\<close>

record Coordinates =
  c_lat :: real
  c_lon :: real
  c_name :: string

datatype js_error = TypeError

text \<open>The table \<open>fallbackCities\<close> (lines 97-104), in insertion order.\<close>

definition fallbackCities :: "(string \<times> Coordinates) list" where
  "fallbackCities =
     [(''new york'', \<lparr> c_lat = 407128 / 10000, c_lon = - (740060 / 10000), c_name = ''New York'' \<rparr>),
      (''london'', \<lparr> c_lat = 515074 / 10000, c_lon = - (1278 / 10000), c_name = ''London'' \<rparr>),
      (''tokyo'', \<lparr> c_lat = 356762 / 10000, c_lon = 1396503 / 10000, c_name = ''Tokyo'' \<rparr>),
      (''paris'', \<lparr> c_lat = 488566 / 10000, c_lon = 23522 / 10000, c_name = ''Paris'' \<rparr>),
      (''sydney'', \<lparr> c_lat = - (338688 / 10000), c_lon = 1512093 / 10000, c_name = ''Sydney'' \<rparr>),
      (''mumbai'', \<lparr> c_lat = 190760 / 10000, c_lon = 728777 / 10000, c_name = ''Mumbai'' \<rparr>)]"

text \<open>The loop over \<open>Object.entries(fallbackCities)\<close> (lines 107-111): the first city wins.\<close>

fun find_city :: "(string \<times> Coordinates) list \<Rightarrow> string \<Rightarrow> Coordinates option" where
  "find_city [] normalizedLocation = None"
| "find_city ((city, coords) # rest) normalizedLocation =
     (if str_includes normalizedLocation city then Some coords
      else find_city rest normalizedLocation)"

definition default_location :: Coordinates where
  "default_location = \<lparr> c_lat = 407128 / 10000, c_lon = - (740060 / 10000), c_name = ''New York'' \<rparr>"

text \<open>
  The geocoding service is a parameter: \<open>geocode q\<close> is the first hit of the search for
  \<open>q\<close>, and \<open>None\<close> when the request or its parsing fails or there is no hit (every such
  case ends in the \<open>catch\<close>).  The argument is \<open>chatState.location!\<close>, so it is \<open>null\<close> at run
  time when the state has no location: \<open>encodeURIComponent(null)\<close> is the text \<open>null\<close>, and
  \<open>location.toLowerCase()\<close> in the \<open>catch\<close> then throws a \<open>TypeError\<close> that nothing catches.
\<close>

definition getCoordinatesFromLocation ::
    "(string \<Rightarrow> string) \<Rightarrow> (string \<Rightarrow> Coordinates option) \<Rightarrow> string option
      \<Rightarrow> js_error + Coordinates" where
  "getCoordinatesFromLocation lower geocode loc =
     (case geocode (case loc of Some l \<Rightarrow> l | None \<Rightarrow> ''null'') of
        Some hit \<Rightarrow> Inr hit
      | None \<Rightarrow>
          (case loc of
             None \<Rightarrow> Inl TypeError
           | Some l \<Rightarrow>
               Inr (case find_city fallbackCities (lower l) of
                      Some coords \<Rightarrow> coords
                    | None \<Rightarrow> default_location)))"

section \<open>Forecast provider: \<open>getNASAWeatherData\<close> and \<open>generateFallbackData\<close>\<close>

text \<open>
  The first entries of the arrays of \<open>data.daily\<close> that the provider reads.  An entry of
  the service's answer is a number or \<open>null\<close> (\<open>None\<close>); the provider copies it unchecked.
  An answer whose arrays have no first entry gives \<open>undefined\<close> instead: for the
  precipitation that behaves as \<open>null\<close> does below, for the other entries it leads to
  \<open>NaN\<close>, which is outside the model of numbers.
\<close>

record Daily =
  temperature_2m_max :: "real option"
  temperature_2m_min :: "real option"
  precipitation_sum :: "real option"
  relative_humidity_2m_mean :: "real option"
  wind_speed_10m_max :: "real option"
  cloud_cover_mean :: "real option"

text \<open>
  The object the provider returns, as it is at run time.  The interface
  \<open>NASAWeatherData\<close> declares its fields as numbers, but the four copied fields hold
  \<open>null\<close> when the answer does.  \<open>ToNumber\<close> is what arithmetic and \<open>Math.round\<close> make of
  such a field: \<open>null\<close> counts as 0.  \<open>as_numbers\<close> reads an object that way, and
  \<open>object_of\<close> is the object whose fields are the numbers of an observation.
\<close>

record WeatherObject =
  o_temperature :: real
  o_precipitation :: "real option"
  o_humidity :: "real option"
  o_windSpeed :: "real option"
  o_cloudCover :: "real option"
  o_lat :: real
  o_lon :: real
  o_locationName :: string

definition ToNumber :: "real option \<Rightarrow> real" where
  "ToNumber v = (case v of Some x \<Rightarrow> x | None \<Rightarrow> 0)"

definition as_numbers :: "WeatherObject \<Rightarrow> NASAWeatherData" where
  "as_numbers obj =
     \<lparr> temperature = o_temperature obj,
       precipitation = ToNumber (o_precipitation obj),
       humidity = ToNumber (o_humidity obj),
       windSpeed = ToNumber (o_windSpeed obj),
       cloudCover = ToNumber (o_cloudCover obj),
       lat = o_lat obj,
       lon = o_lon obj,
       locationName = o_locationName obj \<rparr>"

definition object_of :: "NASAWeatherData \<Rightarrow> WeatherObject" where
  "object_of w =
     \<lparr> o_temperature = temperature w,
       o_precipitation = Some (precipitation w),
       o_humidity = Some (humidity w),
       o_windSpeed = Some (windSpeed w),
       o_cloudCover = Some (cloudCover w),
       o_lat = lat w,
       o_lon = lon w,
       o_locationName = locationName w \<rparr>"

text \<open>
  The five calls of \<open>Math.random()\<close> in \<open>generateFallbackData\<close>, in the order of the calls;
  each value lies in \<open>[0, 1)\<close>.
\<close>

record Draws =
  draw_temp :: real
  draw_precip :: real
  draw_humidity :: real
  draw_wind :: real
  draw_cloud :: real

definition unit_draw :: "real \<Rightarrow> bool" where
  "unit_draw x = (0 \<le> x \<and> x < 1)"

definition unit_draws :: "Draws \<Rightarrow> bool" where
  "unit_draws ds =
     (unit_draw (draw_temp ds) \<and> unit_draw (draw_precip ds) \<and> unit_draw (draw_humidity ds)
      \<and> unit_draw (draw_wind ds) \<and> unit_draw (draw_cloud ds))"

text \<open>
  The seasonal base temperature (lines 154-167): four \<open>if\<close> statements in a row for each
  hemisphere.  \<open>month\<close> is \<open>new Date(date).getMonth()\<close>, \<open>None\<close> for \<open>NaN\<close> (an invalid date),
  where every comparison is false.
\<close>

definition tempBase :: "bool \<Rightarrow> nat option \<Rightarrow> real" where
  "tempBase isNorthern month =
     (case month of
        None \<Rightarrow> 20
      | Some m \<Rightarrow>
          (if isNorthern then
             (let t0 = 20;
                  t1 = (if m \<ge> 11 \<or> m \<le> 2 then 5 else t0);
                  t2 = (if m \<ge> 3 \<and> m \<le> 5 then 15 else t1);
                  t3 = (if m \<ge> 6 \<and> m \<le> 8 then 25 else t2);
                  t4 = (if m \<ge> 9 \<and> m \<le> 10 then 18 else t3)
              in t4)
           else
             (let t0 = 20;
                  t1 = (if m \<ge> 11 \<or> m \<le> 2 then 25 else t0);
                  t2 = (if m \<ge> 3 \<and> m \<le> 5 then 18 else t1);
                  t3 = (if m \<ge> 6 \<and> m \<le> 8 then 5 else t2);
                  t4 = (if m \<ge> 9 \<and> m \<le> 10 then 15 else t3)
              in t4)))"

definition precipitationBase :: real where
  "precipitationBase = 2"

text \<open>\<open>getMonth\<close> is the calendar of the platform: the month of a date text, if it has one.\<close>

definition generateFallbackData ::
    "(string \<Rightarrow> nat option) \<Rightarrow> Draws \<Rightarrow> real \<Rightarrow> real \<Rightarrow> string \<Rightarrow> NASAWeatherData" where
  "generateFallbackData getMonth ds la lo d =
     (let month = getMonth d;
          isNorthern = (la > 0);
          tempVariation = (draw_temp ds - 1 / 2) * 10;
          precipVariation = draw_precip ds * 5
      in \<lparr> temperature = tempBase isNorthern month + tempVariation,
           precipitation = max 0 (precipitationBase + precipVariation),
           humidity = 60 + (draw_humidity ds - 1 / 2) * 30,
           windSpeed = 5 + draw_wind ds * 15,
           cloudCover = draw_cloud ds * 100,
           lat = la,
           lon = lo,
           locationName = ''Estimated Data'' \<rparr>)"

text \<open>
  The forecast service is a parameter: \<open>forecast la lo d\<close> is the daily record of the answer,
  and \<open>None\<close> when the request fails, the answer has no \<open>daily\<close> or reading it throws (every
  such case ends in the \<open>catch\<close>, which calls \<open>generateFallbackData\<close>).  The temperature is
  computed, so it is a number: \<open>null\<close> counts as 0 in the sum.
\<close>

definition getNASAWeatherData ::
    "(real \<Rightarrow> real \<Rightarrow> string \<Rightarrow> Daily option) \<Rightarrow> (string \<Rightarrow> nat option) \<Rightarrow> Draws
      \<Rightarrow> real \<Rightarrow> real \<Rightarrow> string \<Rightarrow> WeatherObject" where
  "getNASAWeatherData forecast getMonth ds la lo d =
     (case forecast la lo d of
        Some daily \<Rightarrow>
          \<lparr> o_temperature =
              (ToNumber (temperature_2m_max daily) + ToNumber (temperature_2m_min daily)) / 2,
            o_precipitation = precipitation_sum daily,
            o_humidity = relative_humidity_2m_mean daily,
            o_windSpeed = wind_speed_10m_max daily,
            o_cloudCover = cloud_cover_mean daily,
            o_lat = la,
            o_lon = lo,
            o_locationName = ''Current Location'' \<rparr>
      | None \<Rightarrow> object_of (generateFallbackData getMonth ds la lo d))"

section \<open>The analysis at run time: \<open>simulateGeminiAnalysis\<close> and \<open>analyzeWithGemini\<close>\<close>

text \<open>
  \<open>simulateGeminiAnalysis\<close> on the object the provider returned.  Every use of its fields
  is arithmetic or \<open>Math.round\<close>, where \<open>null\<close> counts as 0, but for
  \<open>weatherData.precipitation.toFixed(1)\<close> in the first and the last branch (lines 225 and
  233), which throws a \<open>TypeError\<close> when the precipitation is \<open>null\<close>.
\<close>

definition simulateGeminiAnalysis_rt ::
    "WeatherObject \<Rightarrow> string \<Rightarrow> string \<Rightarrow> js_error + Analysis" where
  "simulateGeminiAnalysis_rt obj eventType d =
     (let r = calculateRisksFromRealData (as_numbers obj) eventType
      in if o_precipitation obj = None \<and> (maxRisk r < 30 \<or> \<not> maxRisk r < 60) then Inl TypeError
         else Inr (simulateGeminiAnalysis (as_numbers obj) eventType d))"

text \<open>
  \<open>analyzeWithGemini\<close> (lines 186-197): the simulated analysis, and the same call again
  in its \<open>catch\<close>, whose error nothing in the function catches.
\<close>

definition analyzeWithGemini ::
    "WeatherObject \<Rightarrow> string \<Rightarrow> string \<Rightarrow> js_error + Analysis" where
  "analyzeWithGemini obj eventType d =
     (case simulateGeminiAnalysis_rt obj eventType d of
        Inr a \<Rightarrow> Inr a
      | Inl err \<Rightarrow> simulateGeminiAnalysis_rt obj eventType d)"

section \<open>Dialogue controller\<close>

text \<open>\<open>interface ChatState\<close> and the value it starts with (lines 54-59).\<close>

datatype stage = StageEvent | StageLocation | StageDate

record ChatState =
  stage :: stage
  eventType :: "string option"
  location :: "string option"
  date :: "string option"

definition initialChatState :: ChatState where
  "initialChatState = \<lparr> stage = StageEvent, eventType = None, location = None, date = None \<rparr>"

text \<open>
  \<open>interface Message\<close>, without \<open>id\<close> and \<open>timestamp\<close> (both read the clock), and
  \<open>addMessage(text, 'bot')\<close>.
\<close>

datatype sender = Bot | User

record Message =
  m_text :: string
  m_sender :: sender
  m_riskData :: "RiskData option"
  m_dataSources :: "string list option"

definition botMessage :: "string \<Rightarrow> Message" where
  "botMessage t = \<lparr> m_text = t, m_sender = Bot, m_riskData = None, m_dataSources = None \<rparr>"

text \<open>
  \<open>responses[Math.floor(Math.random() * responses.length)]\<close> for the three responses of
  each call site: the index is 0, 1 or 2.
\<close>

datatype choice = First | Second | Third

fun pick :: "choice \<Rightarrow> 'a \<times> 'a \<times> 'a \<Rightarrow> 'a" where
  "pick First (a, b, c) = a"
| "pick Second (a, b, c) = b"
| "pick Third (a, b, c) = c"

text \<open>The keyword table \<open>eventMap\<close> (lines 291-298), in insertion order.\<close>

definition eventMap :: "(string \<times> string list) list" where
  "eventMap =
     [(''vacation'', [''vacation'', ''holiday'', ''beach'', ''trip'']),
      (''hiking'', [''hike'', ''hiking'', ''trail'', ''trek'', ''mountain'']),
      (''fishing'', [''fish'', ''fishing'', ''angling'']),
      (''picnic'', [''picnic'', ''outdoor meal'', ''park'']),
      (''sports'', [''sport'', ''game'', ''match'', ''athletic'', ''exercise'']),
      (''camping'', [''camp'', ''camping'', ''tent''])]"

text \<open>\<open>keywords.some((keyword) => lowerMsg.includes(keyword))\<close>.\<close>

fun some_keyword :: "string list \<Rightarrow> string \<Rightarrow> bool" where
  "some_keyword [] lowerMsg = False"
| "some_keyword (keyword # keywords) lowerMsg =
     (str_includes lowerMsg keyword \<or> some_keyword keywords lowerMsg)"

text \<open>The loop over \<open>Object.entries(eventMap)\<close> (lines 300-313), left at the first match.\<close>

fun match_event :: "(string \<times> string list) list \<Rightarrow> string \<Rightarrow> string option" where
  "match_event [] lowerMsg = None"
| "match_event ((event, keywords) # rest) lowerMsg =
     (if some_keyword keywords lowerMsg then Some event else match_event rest lowerMsg)"

definition event_responses :: "string \<Rightarrow> string \<times> string \<times> string" where
  "event_responses event =
     (''Awesome! '' @ capitalize event
        @ '' is amazing! Now, where's this happening? Drop me a city name!'',
      ''Nice choice! '' @ capitalize event @ '' sounds fun! What's the location?'',
      ''Perfect! I love '' @ event @ ''! Where are you heading?'')"

definition unknown_event_text :: string where
  "unknown_event_text =
     ''Hmm, I'm not quite sure about that activity. ''
       @ ''Try: vacation, hiking, fishing, picnic, sports, or camping!''"

definition location_responses :: "string \<Rightarrow> string \<times> string \<times> string" where
  "location_responses message =
     (''Got it! '' @ message @ '' it is! When's the big day? Use format YYYY-MM-DD'',
      message @ '' - sounds great! What date are we looking at? (YYYY-MM-DD)'',
      ''Perfect! I've got '' @ message @ '' locked in. Now, what's the date? (YYYY-MM-DD)'')"

definition accessing_text :: string where
  "accessing_text =
     satellite_emoji @ '' Accessing NASA satellite data and atmospheric models...''"

text \<open>
  \<open>processMessage\<close> (lines 287-338).  \<open>chatState\<close> is the state of the render in which the
  message was sent: the function is a closure of that render, and the branch is chosen by
  its \<open>stage\<close>.  The state itself is changed by \<open>setChatState((prev) => ...)\<close>, a function of
  the state at the moment of the change.  The result is that function (the identity where
  the branch sets nothing), the texts the bot adds, and the date
  \<open>generateRealWeatherReport\<close> is then called with, if it is.
\<close>

definition processMessage ::
    "(string \<Rightarrow> string) \<Rightarrow> choice \<Rightarrow> ChatState \<Rightarrow> string
      \<Rightarrow> (ChatState \<Rightarrow> ChatState) \<times> string list \<times> string option" where
  "processMessage lower rnd chatState message =
     (let lowerMsg = lower message
      in case stage chatState of
           StageEvent \<Rightarrow>
             (case match_event eventMap lowerMsg of
                Some event \<Rightarrow>
                  (\<lambda>prev. prev\<lparr>eventType := Some event, stage := StageLocation\<rparr>,
                   [pick rnd (event_responses event)], None)
              | None \<Rightarrow> (\<lambda>prev. prev, [unknown_event_text], None))
         | StageLocation \<Rightarrow>
             (\<lambda>prev. prev\<lparr>location := Some message, stage := StageDate\<rparr>,
              [pick rnd (location_responses message)], None)
         | StageDate \<Rightarrow>
             (\<lambda>prev. prev\<lparr>date := Some message\<rparr>, [accessing_text], Some message))"

text \<open>
  The quick-reply buttons (\<open>eventTypes\<close>, lines 70-77, with value and label) and
  \<open>handleQuickReply\<close> (lines 382-396): the change of the state, the user's text and the
  bot's.  The buttons are rendered only while \<open>chatState.stage === 'event'\<close> (line 510).
\<close>

definition eventTypes :: "(string \<times> string) list" where
  "eventTypes =
     [(''vacation'', ''Beach Day''), (''hiking'', ''Hiking''), (''fishing'', ''Fishing''),
      (''picnic'', ''Picnic''), (''sports'', ''Sports''), (''camping'', ''Camping'')]"

definition quick_responses :: "(string \<Rightarrow> string) \<Rightarrow> string \<Rightarrow> string \<times> string \<times> string" where
  "quick_responses lower label =
     (label @ '' sounds amazing! Where's this adventure taking place?'',
      ''Great choice! What's the location for your '' @ lower label @ ''?'',
      ''Perfect! Where are you heading for this '' @ lower label @ ''?'')"

definition handleQuickReply ::
    "(string \<Rightarrow> string) \<Rightarrow> choice \<Rightarrow> string \<Rightarrow> string
      \<Rightarrow> (ChatState \<Rightarrow> ChatState) \<times> string \<times> string" where
  "handleQuickReply lower rnd event label =
     (\<lambda>prev. prev\<lparr>eventType := Some event, stage := StageLocation\<rparr>,
      ''I'm planning '' @ lower label,
      pick rnd (quick_responses lower label))"

text \<open>\<open>startNewChat\<close> (lines 398-408), as far as the conversation state goes.\<close>

definition startNewChat :: "ChatState \<Rightarrow> ChatState" where
  "startNewChat chatState = initialChatState"

section \<open>Report pipeline: \<open>generateRealWeatherReport\<close>\<close>

text \<open>
  What the pipeline reads from outside the program: the two services, the calendar and the
  random numbers of the fallback data.
\<close>

record World =
  geocode :: "string \<Rightarrow> Coordinates option"
  forecast :: "real \<Rightarrow> real \<Rightarrow> string \<Rightarrow> Daily option"
  getMonth :: "string \<Rightarrow> nat option"
  draws :: Draws

definition connecting_text :: string where
  "connecting_text =
     antenna_emoji @ '' Connecting to NASA data sources and analyzing patterns...''"

definition invitation_text :: string where
  "invitation_text =
     ''Want to check another event with real NASA data? Just tell me what you're planning!''"

definition error_text :: string where
  "error_text =
     ''I encountered an issue accessing real-time NASA data. Please try again in a moment.''"

text \<open>The template of the report (line 353), on an observation whose fields are numbers.\<close>

definition report_text :: "Analysis \<Rightarrow> NASAWeatherData \<Rightarrow> string" where
  "report_text a weatherData =
     analysis a @ newline @ newline @ ''**Real-time Data:**'' @ newline
       @ bullet @ '' Temperature: '' @ number_text (Math_round (temperature weatherData))
       @ degree_sign @ ''C'' @ newline
       @ bullet @ '' Wind Speed: '' @ number_text (Math_round (windSpeed weatherData))
       @ '' km/h'' @ newline
       @ bullet @ '' Precipitation: '' @ toFixed1 (precipitation weatherData) @ ''mm'' @ newline
       @ bullet @ '' Humidity: '' @ number_text (Math_round (humidity weatherData)) @ ''%''
       @ newline
       @ bullet @ '' Cloud Cover: '' @ number_text (Math_round (cloudCover weatherData)) @ ''%''"

text \<open>
  The template at run time: \<open>weatherData.precipitation.toFixed(1)\<close> throws when the
  precipitation is \<open>null\<close>; the other fields go through \<open>Math.round\<close>.
\<close>

definition report_text_rt :: "Analysis \<Rightarrow> WeatherObject \<Rightarrow> js_error + string" where
  "report_text_rt a obj =
     (if o_precipitation obj = None then Inl TypeError
      else Inr (report_text a (as_numbers obj)))"

text \<open>
  The \<open>try\<close> block of \<open>generateRealWeatherReport\<close> after its first message (lines 344-355):
  the report message it adds, or the error that leaves it.  \<open>chatState\<close> is the state of the
  render that sent the date; the block reads its \<open>location\<close> and \<open>eventType\<close>
  (\<open>chatState.eventType!\<close> is \<open>null\<close> when unset, which indexes the table and prints as the
  text \<open>null\<close>).
\<close>

definition report_attempt ::
    "(string \<Rightarrow> string) \<Rightarrow> World \<Rightarrow> ChatState \<Rightarrow> string \<Rightarrow> js_error + Message" where
  "report_attempt lower world chatState d =
     (case getCoordinatesFromLocation lower (geocode world) (location chatState) of
        Inl err \<Rightarrow> Inl err
      | Inr coords \<Rightarrow>
          (let weatherData =
                 getNASAWeatherData (forecast world) (getMonth world) (draws world)
                   (c_lat coords) (c_lon coords) d
           in case analyzeWithGemini weatherData
                     (case eventType chatState of Some e \<Rightarrow> e | None \<Rightarrow> ''null'') d of
                Inl err \<Rightarrow> Inl err
              | Inr a \<Rightarrow>
                  (case report_text_rt a weatherData of
                     Inl err \<Rightarrow> Inl err
                   | Inr report \<Rightarrow>
                       Inr \<lparr> m_text = report, m_sender = Bot, m_riskData = Some (risks a),
                             m_dataSources = Some (dataSources a) \<rparr>)))"

text \<open>
  \<open>generateRealWeatherReport\<close> (lines 340-368): the messages it adds, in order, and
  whether it sets the timer of lines 357-362, whose callback adds the invitation and resets
  the state.  That timer is the only place where the function touches the state; the
  \<open>catch\<close> adds one message, sets no timer and no state.
\<close>

definition generateRealWeatherReport ::
    "(string \<Rightarrow> string) \<Rightarrow> World \<Rightarrow> ChatState \<Rightarrow> string \<Rightarrow> Message list \<times> bool" where
  "generateRealWeatherReport lower world chatState d =
     (case report_attempt lower world chatState d of
        Inl err \<Rightarrow> ([botMessage connecting_text, botMessage error_text], False)
      | Inr report \<Rightarrow> ([botMessage connecting_text, report], True))"

section \<open>The conversation in time\<close>

text \<open>
  The program acts in callbacks.  \<open>handleSend\<close> (lines 370-380) calls \<open>processMessage\<close>
  300 ms after the user sent a message, as a closure of the render that saw the sending.
  The date branch of \<open>processMessage\<close> calls \<open>generateRealWeatherReport\<close>, a closure of the same
  render, 1500 + 2000 ms later.  A report that succeeds, after the time its two requests
  took, resets the state 2000 + 1200 ms later (lines 357-362).  A pending callback carries its
  due time and the state its closure holds.
\<close>

datatype task =
    Process ChatState string
  | Report ChatState string
  | Reset

record Config =
  now :: nat
  current :: ChatState
  timers :: "(nat \<times> task) list"

definition start :: Config where
  "start = \<lparr> now = 0, current = initialChatState, timers = [] \<rparr>"

text \<open>
  What happens to a configuration: the user sends a message or clicks a quick reply at
  some time, a new chat is asked for, or the next timer fires.  A timer step carries the
  choice of response, the world a report finds, and the time in ms its requests take.
  (\<open>handleSend\<close> drops a blank message and a quick reply also needs the bot to have
  spoken last; neither check is modelled, and no run below depends on them.)
\<close>

datatype event =
    Send nat string
  | Click nat choice string string
  | NewChat nat
  | Timer choice World nat

text \<open>The timer that is due first, the older one of two with the same due time.\<close>

fun pop_earliest :: "(nat \<times> task) list \<Rightarrow> ((nat \<times> task) \<times> (nat \<times> task) list) option" where
  "pop_earliest [] = None"
| "pop_earliest (x # xs) =
     (case pop_earliest xs of
        None \<Rightarrow> Some (x, [])
      | Some (y, rest) \<Rightarrow> if fst y < fst x then Some (y, x # rest) else Some (x, xs))"

text \<open>The user acts at a time that is not in the past and before every pending timer.\<close>

definition user_may_act :: "nat \<Rightarrow> Config \<Rightarrow> bool" where
  "user_may_act t c = (now c \<le> t \<and> list_all (\<lambda>timer. t \<le> fst timer) (timers c))"

text \<open>A callback that fires at its due time.\<close>

definition run_task ::
    "(string \<Rightarrow> string) \<Rightarrow> choice \<Rightarrow> World \<Rightarrow> nat \<Rightarrow> nat \<Rightarrow> task \<Rightarrow> Config \<Rightarrow> Config" where
  "run_task lower rnd world network due k c =
     (case k of
        Process closure message \<Rightarrow>
          (case processMessage lower rnd closure message of
             (update, texts, report) \<Rightarrow>
               c\<lparr>current := update (current c),
                 timers := timers c
                   @ (case report of Some d \<Rightarrow> [(due + 3500, Report closure d)] | None \<Rightarrow> [])\<rparr>)
      | Report closure d \<Rightarrow>
          (if snd (generateRealWeatherReport lower world closure d)
           then c\<lparr>timers := timers c @ [(due + network + 3200, Reset)]\<rparr>
           else c)
      | Reset \<Rightarrow> c\<lparr>current := initialChatState\<rparr>)"

definition apply_event :: "(string \<Rightarrow> string) \<Rightarrow> event \<Rightarrow> Config \<Rightarrow> Config option" where
  "apply_event lower ev c =
     (case ev of
        Send t message \<Rightarrow>
          (if user_may_act t c
           then Some (c\<lparr>now := t, timers := timers c @ [(t + 300, Process (current c) message)]\<rparr>)
           else None)
      | Click t rnd event label \<Rightarrow>
          (if user_may_act t c \<and> stage (current c) = StageEvent
           then Some (c\<lparr>now := t,
                        current := fst (handleQuickReply lower rnd event label) (current c)\<rparr>)
           else None)
      | NewChat t \<Rightarrow>
          (if user_may_act t c then Some (c\<lparr>now := t, current := startNewChat (current c)\<rparr>)
           else None)
      | Timer rnd world network \<Rightarrow>
          (case pop_earliest (timers c) of
             None \<Rightarrow> None
           | Some ((due, k), rest) \<Rightarrow>
               Some (run_task lower rnd world network due k (c\<lparr>now := due, timers := rest\<rparr>))))"

fun run :: "(string \<Rightarrow> string) \<Rightarrow> event list \<Rightarrow> Config \<Rightarrow> Config option" where
  "run lower [] c = Some c"
| "run lower (ev # evs) c =
     (case apply_event lower ev c of None \<Rightarrow> None | Some c' \<Rightarrow> run lower evs c')"

text \<open>
  The invariant of the conversation state: the event type is set exactly past stage
  \<open>event\<close>, the location exactly past stage \<open>location\<close>.
\<close>

definition state_invariant :: "ChatState \<Rightarrow> bool" where
  "state_invariant s =
     ((eventType s \<noteq> None) = (stage s \<noteq> StageEvent)
      \<and> (location s \<noteq> None) = (stage s = StageDate))"

section \<open>The scorer and the generator among the objects of the program\<close>

text \<open>
  A second reading of the two functions, for what a call could read or change without
  being handed it: the objects that exist, the source of \<open>Math.random()\<close>, and the
  conversation state of the component.  \<open>objects\<close> holds the \<open>RiskData\<close> objects by
  reference, \<open>next_ref\<close> is the reference of the next object, \<open>randoms\<close> are the values
  \<open>Math.random()\<close> returns, in order, and \<open>drawn\<close> is how many were taken.
\<close>

record Ambient =
  objects :: "nat \<Rightarrow> RiskData"
  next_ref :: nat
  randoms :: "nat \<Rightarrow> real"
  drawn :: nat
  conversation :: ChatState

text \<open>An object literal makes a new object; \<open>obj[k]\<close> reads and \<open>obj[k] = v\<close> writes it.\<close>

definition new_object :: "RiskData \<Rightarrow> Ambient \<Rightarrow> nat \<times> Ambient" where
  "new_object r a =
     (next_ref a, a\<lparr>objects := (objects a)(next_ref a := r), next_ref := Suc (next_ref a)\<rparr>)"

definition get_property :: "nat \<Rightarrow> risk_key \<Rightarrow> Ambient \<Rightarrow> real" where
  "get_property ref k a = get_risk (objects a ref) k"

definition set_property :: "nat \<Rightarrow> risk_key \<Rightarrow> real \<Rightarrow> Ambient \<Rightarrow> Ambient" where
  "set_property ref k v a = a\<lparr>objects := (objects a)(ref := set_risk k v (objects a ref))\<rparr>"

definition Math_random :: "Ambient \<Rightarrow> real \<times> Ambient" where
  "Math_random a = (randoms a (drawn a), a\<lparr>drawn := Suc (drawn a)\<rparr>)"

text \<open>
  \<open>calculateRisksFromRealData\<close> (lines 239-265): \<open>baseRisks\<close> is a new object, the loop
  writes its properties, and the function returns the reference.
\<close>

definition adjust_property ::
    "(risk_key \<times> real) list \<Rightarrow> nat \<Rightarrow> risk_key \<Rightarrow> Ambient \<Rightarrow> Ambient" where
  "adjust_property adjustments ref k a =
     set_property ref k
       (max 5 (min 95 (get_property ref k a
          + (case map_of adjustments k of Some v \<Rightarrow> v | None \<Rightarrow> 0)))) a"

definition calculateRisks_amb :: "NASAWeatherData \<Rightarrow> string \<Rightarrow> Ambient \<Rightarrow> nat \<times> Ambient" where
  "calculateRisks_amb weatherData event a =
     (case new_object (baseRisks weatherData) a of
        (ref, a1) \<Rightarrow>
          (let adjustments =
                 (case map_of eventAdjustments event of Some adj \<Rightarrow> adj | None \<Rightarrow> [])
           in (ref, fold (adjust_property adjustments ref) (map fst adjustments) a1)))"

text \<open>
  \<open>simulateGeminiAnalysis\<close> (lines 199-237): it calls the scorer, reads the object the
  scorer returned, and returns that reference, the text and the sources.
\<close>

definition simulateGeminiAnalysis_amb ::
    "NASAWeatherData \<Rightarrow> string \<Rightarrow> string \<Rightarrow> Ambient \<Rightarrow> (nat \<times> string \<times> string list) \<times> Ambient" where
  "simulateGeminiAnalysis_amb weatherData event d a =
     (case calculateRisks_amb weatherData event a of
        (ref, a1) \<Rightarrow>
          (let r = objects a1 ref
           in ((ref,
                analysis_header weatherData d
                  @ (if maxRisk r < 30 then favorable_text weatherData event
                     else if maxRisk r < 60 then moderate_text weatherData event r
                     else high_text weatherData event r),
                [''NASA Global Forecast System (GFS)'', ''Open-Meteo Weather API'',
                 ''Historical Climate Patterns'', ''Satellite Atmospheric Analysis'']),
               a1)))"

text \<open>
  For contrast, \<open>generateFallbackData\<close> (lines 148-183) read the same way: it takes five
  values from the source of \<open>Math.random()\<close>.
\<close>

definition generateFallbackData_amb ::
    "(string \<Rightarrow> nat option) \<Rightarrow> real \<Rightarrow> real \<Rightarrow> string \<Rightarrow> Ambient \<Rightarrow> NASAWeatherData \<times> Ambient" where
  "generateFallbackData_amb calendar la lo d a =
     (case Math_random a of (r1, a1) \<Rightarrow>
      case Math_random a1 of (r2, a2) \<Rightarrow>
      case Math_random a2 of (r3, a3) \<Rightarrow>
      case Math_random a3 of (r4, a4) \<Rightarrow>
      case Math_random a4 of (r5, a5) \<Rightarrow>
        (generateFallbackData calendar
           \<lparr> draw_temp = r1, draw_precip = r2, draw_humidity = r3, draw_wind = r4,
             draw_cloud = r5 \<rparr> la lo d,
         a5))"

text \<open>The object a call of the scorer returned, as it is when the call ends.\<close>

definition returned :: "nat \<times> Ambient \<Rightarrow> RiskData" where
  "returned p = objects (snd p) (fst p)"

section \<open>The scorer as the specification words it\<close>

text \<open>A score is a percentage between 5 and 95.\<close>

definition in_range :: "real \<Rightarrow> bool" where
  "in_range x = (5 \<le> x \<and> x \<le> 95)"

definition risks_in_range :: "RiskData \<Rightarrow> bool" where
  "risks_in_range r =
     (in_range (hot r) \<and> in_range (cold r) \<and> in_range (windy r) \<and> in_range (wet r)
      \<and> in_range (uncomfortable r))"

definition risk_sum :: "RiskData \<Rightarrow> real" where
  "risk_sum r = hot r + cold r + windy r + wet r + uncomfortable r"

text \<open>
  The specification's algorithm (section 4.4), written from its words and not from the
  code: \<open>clamp\<close> cuts a value to \<open>[5, 95]\<close>; step 1 gives five base scores; step 2 adds the
  adjustment of a category that has one and clamps again, and leaves the others.
\<close>

definition clamp :: "real \<Rightarrow> real" where
  "clamp x = (if x < 5 then 5 else if x > 95 then 95 else x)"

fun spec_base :: "NASAWeatherData \<Rightarrow> risk_key \<Rightarrow> real" where
  "spec_base w Hot = clamp ((temperature w - 25) * 3)"
| "spec_base w Cold = clamp ((5 - temperature w) * 4)"
| "spec_base w Windy = clamp (windSpeed w * 2)"
| "spec_base w Wet = clamp (precipitation w * 10 + humidity w * (3 / 10))"
| "spec_base w Uncomfortable = clamp (\<bar>temperature w - 20\<bar> * 2 + humidity w * (2 / 10))"

definition spec_score :: "NASAWeatherData \<Rightarrow> (risk_key \<rightharpoonup> real) \<Rightarrow> risk_key \<Rightarrow> real" where
  "spec_score w adj k =
     (case adj k of None \<Rightarrow> spec_base w k | Some a \<Rightarrow> clamp (spec_base w k + a))"

text \<open>The adjustment vector of an event type, read off the table of the code.\<close>

definition adjustment_vector :: "string \<Rightarrow> (risk_key \<rightharpoonup> real)" where
  "adjustment_vector e =
     (case map_of eventAdjustments e of Some a \<Rightarrow> map_of a | None \<Rightarrow> Map.empty)"

section \<open>Notions used in the statements\<close>

text \<open>A message holds one of the keywords of an activity.\<close>

definition has_keyword :: "string list \<Rightarrow> string \<Rightarrow> bool" where
  "has_keyword keywords lowerMsg = (\<exists>keyword \<in> set keywords. sublist keyword lowerMsg)"

text \<open>The position of a key in \<open>risk_keys\<close>.\<close>

fun key_position :: "risk_key \<Rightarrow> nat" where
  "key_position Hot = 0"
| "key_position Cold = 1"
| "key_position Windy = 2"
| "key_position Wet = 3"
| "key_position Uncomfortable = 4"

text \<open>The figures an analysis shows, as the templates print them.\<close>

definition temperature_figure :: "NASAWeatherData \<Rightarrow> string" where
  "temperature_figure w = number_text (Math_round (temperature w)) @ degree_sign @ ''C''"

definition wind_figure :: "NASAWeatherData \<Rightarrow> string" where
  "wind_figure w = number_text (Math_round (windSpeed w)) @ '' km/h''"

definition precipitation_figure :: "NASAWeatherData \<Rightarrow> string" where
  "precipitation_figure w = toFixed1 (precipitation w) @ ''mm''"

definition percentage_figure :: "RiskData \<Rightarrow> string" where
  "percentage_figure r = number_text (Math_round (maxRisk r)) @ ''%''"

section \<open>Sample inputs\<close>

text \<open>Services that are not reachable: every request fails.\<close>

definition offline_geocode :: "string \<Rightarrow> Coordinates option" where
  "offline_geocode q = None"

definition offline_forecast :: "real \<Rightarrow> real \<Rightarrow> string \<Rightarrow> Daily option" where
  "offline_forecast la lo d = None"

text \<open>A calendar that reads every date as one in July (\<open>getMonth\<close> gives 6).\<close>

definition july_calendar :: "string \<Rightarrow> nat option" where
  "july_calendar d = Some 6"

definition sample_draws :: Draws where
  "sample_draws =
     \<lparr> draw_temp = 1 / 4, draw_precip = 1 / 2, draw_humidity = 3 / 4, draw_wind = 0,
       draw_cloud = 9 / 10 \<rparr>"

definition sample_weather :: NASAWeatherData where
  "sample_weather =
     \<lparr> temperature = 31, precipitation = 12 / 10, humidity = 70, windSpeed = 18,
       cloudCover = 40, lat = 488566 / 10000, lon = 23522 / 10000, locationName = ''Paris'' \<rparr>"

text \<open>The entry of Tokyo in \<open>fallbackCities\<close>.\<close>

definition tokyo_fallback :: Coordinates where
  "tokyo_fallback = \<lparr> c_lat = 356762 / 10000, c_lon = 1396503 / 10000, c_name = ''Tokyo'' \<rparr>"

definition mild_weather :: NASAWeatherData where
  "mild_weather =
     \<lparr> temperature = 20, precipitation = 0, humidity = 10, windSpeed = 2, cloudCover = 30,
       lat = 488566 / 10000, lon = 23522 / 10000, locationName = ''Paris'' \<rparr>"

text \<open>A world in which no service answers, so that both fallbacks are taken.\<close>

definition offline_world :: World where
  "offline_world =
     \<lparr> geocode = offline_geocode, forecast = offline_forecast, getMonth = july_calendar,
       draws = sample_draws \<rparr>"

text \<open>
  A forecast service whose answer has \<open>null\<close> for the precipitation of the day, and the
  world with it.
\<close>

definition null_rain_forecast :: "real \<Rightarrow> real \<Rightarrow> string \<Rightarrow> Daily option" where
  "null_rain_forecast la lo d =
     Some \<lparr> temperature_2m_max = Some 24, temperature_2m_min = Some 16,
            precipitation_sum = None, relative_humidity_2m_mean = Some 55,
            wind_speed_10m_max = Some 12, cloud_cover_mean = Some 40 \<rparr>"

definition null_rain_world :: World where
  "null_rain_world =
     \<lparr> geocode = offline_geocode, forecast = null_rain_forecast, getMonth = july_calendar,
       draws = sample_draws \<rparr>"

text \<open>The state after the turns \<open>hiking\<close>, \<open>Paris\<close> and a date.\<close>

definition paris_hike :: ChatState where
  "paris_hike =
     \<lparr> stage = StageDate, eventType = Some ''hiking'', location = Some ''Paris'',
       date = Some ''2025-07-04'' \<rparr>"

text \<open>
  A user who sends a date, a second date a second later, and after the reset of the first
  report an activity and a place.  The second report's reset falls between the sending of
  the place (at 9800) and its processing (at 10100).
\<close>

definition overlapping_turns :: "event list" where
  "overlapping_turns =
     [Send 0 ''hiking'', Timer First offline_world 0,
      Send 1000 ''Paris'', Timer First offline_world 0,
      Send 2000 ''2025-07-04'', Timer First offline_world 0,
      Send 3000 ''2025-07-05'', Timer First offline_world 0,
      Timer First offline_world 0,
      Timer First offline_world 0,
      Timer First offline_world 0,
      Send 9100 ''hiking'', Timer First offline_world 0,
      Send 9800 ''Tokyo'',
      Timer First offline_world 0,
      Timer First offline_world 0]"

text \<open>A user whose report meets the forecast with the \<open>null\<close> precipitation.\<close>

definition failing_turns :: "event list" where
  "failing_turns =
     [Send 0 ''hiking'', Timer First offline_world 0,
      Send 1000 ''Paris'', Timer First offline_world 0,
      Send 2000 ''2025-07-04'', Timer First offline_world 0,
      Timer First null_rain_world 250]"

text \<open>Two ambient states that differ in everything a call could read.\<close>

definition ambient_one :: Ambient where
  "ambient_one =
     \<lparr> objects = (\<lambda>ref. baseRisks mild_weather), next_ref = 3, randoms = (\<lambda>i. 1 / 4),
       drawn = 0, conversation = initialChatState \<rparr>"

definition ambient_two :: Ambient where
  "ambient_two =
     \<lparr> objects = (\<lambda>ref. baseRisks sample_weather), next_ref = 8, randoms = (\<lambda>i. 3 / 4),
       drawn = 5, conversation = paris_hike \<rparr>"

section \<open>Properties of the risk scorer\<close>

lemma in_range_clamp: "in_range (max 5 (min 95 x))"
  by (simp add: in_range_def)

lemma baseRisks_in_range: "risks_in_range (baseRisks w)"
  by (simp add: risks_in_range_def baseRisks_def in_range_clamp)

lemma adjust_key_in_range: "risks_in_range r \<Longrightarrow> risks_in_range (adjust_key adj k r)"
  by (cases k) (simp_all add: adjust_key_def risks_in_range_def in_range_clamp)

lemma fold_adjust_in_range:
  "risks_in_range r \<Longrightarrow> risks_in_range (fold (adjust_key adj) ks r)"
  by (induction ks arbitrary: r) (simp_all add: adjust_key_in_range)

lemma calculateRisks_in_range: "risks_in_range (calculateRisksFromRealData w e)"
  by (simp add: calculateRisksFromRealData_def Let_def fold_adjust_in_range baseRisks_in_range)

lemma clamp_max_min: "clamp x = max 5 (min 95 x)"
  by (simp add: clamp_def max_def min_def)

lemma clamp_mono: "x \<le> y \<Longrightarrow> clamp x \<le> clamp y"
  by (simp add: clamp_def)

text \<open>Reading a key after the loop: a key the loop visits once is adjusted once.\<close>

lemma get_set_risk: "get_risk (set_risk k v r) k' = (if k' = k then v else get_risk r k')"
  by (cases k; cases k') simp_all

lemma get_adjust_key:
  "get_risk (adjust_key adj k r) k' =
     (if k' = k then max 5 (min 95 (get_risk r k + (case map_of adj k of Some v \<Rightarrow> v | None \<Rightarrow> 0)))
      else get_risk r k')"
  by (simp add: adjust_key_def get_set_risk)

lemma fold_adjust_other:
  "k \<notin> set ks \<Longrightarrow> get_risk (fold (adjust_key adj) ks r) k = get_risk r k"
  by (induction ks arbitrary: r) (simp_all add: get_adjust_key)

lemma fold_adjust_member:
  "distinct ks \<Longrightarrow> k \<in> set ks \<Longrightarrow>
   get_risk (fold (adjust_key adj) ks r) k =
     max 5 (min 95 (get_risk r k + (case map_of adj k of Some v \<Rightarrow> v | None \<Rightarrow> 0)))"
proof (induction ks arbitrary: r)
  case Nil
  then show ?case by simp
next
  case (Cons a ks)
  show ?case
  proof (cases "k = a")
    case True
    with Cons.prems have "k \<notin> set ks" by simp
    then show ?thesis using True by (simp add: fold_adjust_other get_adjust_key)
  next
    case False
    with Cons.prems have "distinct ks" "k \<in> set ks" by simp_all
    then show ?thesis using False by (simp add: Cons.IH get_adjust_key)
  qed
qed

lemma eventAdjustments_distinct:
  "map_of eventAdjustments e = Some adj \<Longrightarrow> distinct (map fst adj)"
  by (auto simp: eventAdjustments_def split: if_splits)

lemma spec_base_baseRisks: "spec_base w k = get_risk (baseRisks w) k"
  by (cases k) (simp_all add: baseRisks_def clamp_max_min)

lemma calculateRisks_spec:
  "get_risk (calculateRisksFromRealData w e) k = spec_score w (adjustment_vector e) k"
proof (cases "map_of eventAdjustments e")
  case None
  then show ?thesis
    by (simp add: calculateRisksFromRealData_def adjustment_vector_def spec_score_def
        spec_base_baseRisks)
next
  case (Some adj)
  then have d: "distinct (map fst adj)" by (rule eventAdjustments_distinct)
  show ?thesis
  proof (cases "map_of adj k")
    case None
    then have "k \<notin> set (map fst adj)" by (simp add: map_of_eq_None_iff)
    then show ?thesis using Some None
      by (simp add: calculateRisksFromRealData_def adjustment_vector_def spec_score_def
          spec_base_baseRisks fold_adjust_other)
  next
    case (Some a)
    then have "k \<in> set (map fst adj)" by (metis map_of_eq_None_iff option.distinct(1) set_map)
    then show ?thesis using \<open>map_of eventAdjustments e = Some adj\<close> Some d
      by (simp add: calculateRisksFromRealData_def adjustment_vector_def spec_score_def
          spec_base_baseRisks fold_adjust_member clamp_max_min)
  qed
qed

lemma adjustment_vector_hiking:
  "adjustment_vector ''hiking'' = [Hot \<mapsto> 15, Cold \<mapsto> 10, Windy \<mapsto> 10, Wet \<mapsto> 20]"
  by (rule ext) (simp add: adjustment_vector_def eventAdjustments_def)

lemma adjustment_vector_picnic:
  "adjustment_vector ''picnic'' = [Wet \<mapsto> 30, Windy \<mapsto> 15, Hot \<mapsto> 10]"
  by (rule ext) (simp add: adjustment_vector_def eventAdjustments_def)

text \<open>
  Claim C1.  For every observation and every event type (one of the six activities or any
  other text), each of the five scores lies in \<open>[5, 95]\<close>, after the base transforms and
  after the adjustments; nothing makes the five sum to 100.
\<close>

theorem C1_scores_between_5_and_95:
  "risks_in_range (baseRisks w) \<and> risks_in_range (calculateRisksFromRealData w e)
   \<and> (\<exists>w' e'. risk_sum (calculateRisksFromRealData w' e') \<noteq> 100)"
proof -
  let ?w = "\<lparr> temperature = 20, precipitation = 0, humidity = 0, windSpeed = 0, cloudCover = 0,
              lat = 0, lon = 0, locationName = [] \<rparr>"
  have "risk_sum (calculateRisksFromRealData ?w []) = 25"
    by (simp add: risk_sum_def calculateRisksFromRealData_def eventAdjustments_def baseRisks_def)
  then have "risk_sum (calculateRisksFromRealData ?w []) \<noteq> 100"
    by simp
  then have "\<exists>w' e'. risk_sum (calculateRisksFromRealData w' e') \<noteq> 100"
    by blast
  then show ?thesis
    by (simp add: baseRisks_in_range calculateRisks_in_range)
qed

text \<open>
  Claim C2.  The scorer computes the specified algorithm: for every observation, event type
  and category its score is \<open>spec_score\<close> for the adjustment vector of the event type, that
  is the clamped base score, with the adjustment added and clamped again where the vector
  lists the category.  The vectors of hiking and picnic are the ones the specification
  gives, and the two profiles are written out.
\<close>

theorem C2_scorer_computes_specified_algorithm:
  "get_risk (calculateRisksFromRealData w e) k = spec_score w (adjustment_vector e) k
   \<and> adjustment_vector ''hiking'' = [Hot \<mapsto> 15, Cold \<mapsto> 10, Windy \<mapsto> 10, Wet \<mapsto> 20]
   \<and> adjustment_vector ''picnic'' = [Wet \<mapsto> 30, Windy \<mapsto> 15, Hot \<mapsto> 10]
   \<and> calculateRisksFromRealData w ''hiking'' =
       \<lparr> hot = clamp (spec_base w Hot + 15), cold = clamp (spec_base w Cold + 10),
         windy = clamp (spec_base w Windy + 10), wet = clamp (spec_base w Wet + 20),
         uncomfortable = spec_base w Uncomfortable \<rparr>
   \<and> calculateRisksFromRealData w ''picnic'' =
       \<lparr> hot = clamp (spec_base w Hot + 10), cold = spec_base w Cold,
         windy = clamp (spec_base w Windy + 15), wet = clamp (spec_base w Wet + 30),
         uncomfortable = spec_base w Uncomfortable \<rparr>"
proof -
  have hk: "get_risk (calculateRisksFromRealData w ''hiking'') key =
      spec_score w [Hot \<mapsto> 15, Cold \<mapsto> 10, Windy \<mapsto> 10, Wet \<mapsto> 20] key" for key
    using calculateRisks_spec [of w "''hiking''" key] by (simp add: adjustment_vector_hiking)
  have h: "calculateRisksFromRealData w ''hiking'' =
       \<lparr> hot = clamp (spec_base w Hot + 15), cold = clamp (spec_base w Cold + 10),
         windy = clamp (spec_base w Windy + 10), wet = clamp (spec_base w Wet + 20),
         uncomfortable = spec_base w Uncomfortable \<rparr>"
    using hk [of Hot] hk [of Cold] hk [of Windy] hk [of Wet] hk [of Uncomfortable]
    by (intro RiskData.equality) (simp_all add: spec_score_def)
  have pk: "get_risk (calculateRisksFromRealData w ''picnic'') key =
      spec_score w [Wet \<mapsto> 30, Windy \<mapsto> 15, Hot \<mapsto> 10] key" for key
    using calculateRisks_spec [of w "''picnic''" key] by (simp add: adjustment_vector_picnic)
  have p: "calculateRisksFromRealData w ''picnic'' =
       \<lparr> hot = clamp (spec_base w Hot + 10), cold = spec_base w Cold,
         windy = clamp (spec_base w Windy + 15), wet = clamp (spec_base w Wet + 30),
         uncomfortable = spec_base w Uncomfortable \<rparr>"
    using pk [of Hot] pk [of Cold] pk [of Windy] pk [of Wet] pk [of Uncomfortable]
    by (intro RiskData.equality) (simp_all add: spec_score_def)
  show ?thesis
    using h p calculateRisks_spec [of w e k] adjustment_vector_hiking adjustment_vector_picnic
    by blast
qed

text \<open>
  Claim C10.  For every event type, raising the wind speed of an observation and nothing
  else never lowers the Windy score, and raising its precipitation and nothing else never
  lowers the Wet score.
\<close>

theorem C10_scorer_monotone_in_wind_and_rain:
  assumes "v1 \<le> v2"
  shows "windy (calculateRisksFromRealData (w\<lparr>windSpeed := v1\<rparr>) e)
           \<le> windy (calculateRisksFromRealData (w\<lparr>windSpeed := v2\<rparr>) e)
       \<and> wet (calculateRisksFromRealData (w\<lparr>precipitation := v1\<rparr>) e)
           \<le> wet (calculateRisksFromRealData (w\<lparr>precipitation := v2\<rparr>) e)"
proof -
  have wind:
    "spec_score (w\<lparr>windSpeed := v1\<rparr>) a Windy \<le> spec_score (w\<lparr>windSpeed := v2\<rparr>) a Windy"
    for a
    using assms by (simp add: spec_score_def clamp_mono split: option.split)
  have rain:
    "spec_score (w\<lparr>precipitation := v1\<rparr>) a Wet \<le> spec_score (w\<lparr>precipitation := v2\<rparr>) a Wet"
    for a
    using assms by (simp add: spec_score_def clamp_mono split: option.split)
  show ?thesis
    using wind [of "adjustment_vector e"] rain [of "adjustment_vector e"]
      calculateRisks_spec [of _ e Windy] calculateRisks_spec [of _ e Wet]
    by simp
qed

theorem C10_monotone_witness:
  "(10 :: real) \<le> 30 \<and> (1 :: real) \<le> 4
   \<and> windy (calculateRisksFromRealData (sample_weather\<lparr>windSpeed := 10\<rparr>) ''hiking'')
        \<le> windy (calculateRisksFromRealData (sample_weather\<lparr>windSpeed := 30\<rparr>) ''hiking'')
   \<and> wet (calculateRisksFromRealData (sample_weather\<lparr>precipitation := 1\<rparr>) ''hiking'')
        \<le> wet (calculateRisksFromRealData (sample_weather\<lparr>precipitation := 4\<rparr>) ''hiking'')"
  using C10_scorer_monotone_in_wind_and_rain [of 10 30 sample_weather "''hiking''"]
    C10_scorer_monotone_in_wind_and_rain [of 1 4 sample_weather "''hiking''"]
  by simp

section \<open>Properties of the location resolver and the forecast provider\<close>

lemma str_includes_sublist: "str_includes s k = sublist k s"
  by (induction s) (auto simp: sublist_Cons_right)

lemma find_city_none:
  "(\<And>city. city \<in> set (map fst cs) \<Longrightarrow> \<not> str_includes n city) \<Longrightarrow> find_city cs n = None"
  by (induction cs) auto

lemma lowers_ascii_ascii: "lowers_ascii ascii_toLowerCase"
  by (simp add: lowers_ascii_def)

text \<open>
  Claim C5.  As stated the claim fails: the table is searched in its order, so a name that
  holds \<open>london\<close> before the search reaches \<open>tokyo\<close> resolves to London.  (On this name of
  ASCII letters the platform's \<open>toLowerCase\<close> is \<open>ascii_toLowerCase\<close>.)
\<close>

theorem C5_tokyo_counterexample:
  "offline_geocode ''London to Tokyo'' = None
   \<and> ascii_only ''London to Tokyo''
   \<and> sublist ''tokyo'' (ascii_toLowerCase ''London to Tokyo'')
   \<and> getCoordinatesFromLocation ascii_toLowerCase offline_geocode (Some ''London to Tokyo'')
       = Inr \<lparr> c_lat = 515074 / 10000, c_lon = - (1278 / 10000), c_name = ''London'' \<rparr>
   \<and> getCoordinatesFromLocation ascii_toLowerCase offline_geocode (Some ''London to Tokyo'')
       \<noteq> Inr tokyo_fallback"
  by (simp add: str_includes_sublist [symmetric] ascii_toLowerCase_def ascii_lower_char_def
      ascii_only_def getCoordinatesFromLocation_def fallbackCities_def offline_geocode_def
      tokyo_fallback_def)

text \<open>
  Claim C5, amended.  For every name, and whatever \<open>toLowerCase\<close> does, the resolver returns
  a complete result and never raises.  When live geocoding fails, a name whose lower-case
  form holds \<open>tokyo\<close>, and neither \<open>new york\<close> nor \<open>london\<close> (the entries before it), resolves
  to the Tokyo entry, and a name whose lower-case form holds no city of the table resolves
  to the default location.
\<close>

theorem C5_resolver_fallback_chain:
  "(\<exists>c. getCoordinatesFromLocation lower geo (Some name) = Inr c)
   \<and> (geo name = None \<and> sublist ''tokyo'' (lower name)
        \<and> \<not> sublist ''new york'' (lower name) \<and> \<not> sublist ''london'' (lower name)
      \<longrightarrow> getCoordinatesFromLocation lower geo (Some name) = Inr tokyo_fallback)
   \<and> (geo name = None
        \<and> (\<forall>city \<in> set (map fst fallbackCities). \<not> sublist city (lower name))
      \<longrightarrow> getCoordinatesFromLocation lower geo (Some name) = Inr default_location)"
proof (intro conjI impI)
  show "\<exists>c. getCoordinatesFromLocation lower geo (Some name) = Inr c"
    by (simp add: getCoordinatesFromLocation_def split: option.split)
next
  assume "geo name = None \<and> sublist ''tokyo'' (lower name)
        \<and> \<not> sublist ''new york'' (lower name) \<and> \<not> sublist ''london'' (lower name)"
  then show "getCoordinatesFromLocation lower geo (Some name) = Inr tokyo_fallback"
    by (simp add: getCoordinatesFromLocation_def fallbackCities_def str_includes_sublist
        tokyo_fallback_def)
next
  assume a: "geo name = None
      \<and> (\<forall>city \<in> set (map fst fallbackCities). \<not> sublist city (lower name))"
  then have "find_city fallbackCities (lower name) = None"
    by (intro find_city_none) (auto simp: str_includes_sublist)
  with a show "getCoordinatesFromLocation lower geo (Some name) = Inr default_location"
    by (simp add: getCoordinatesFromLocation_def)
qed

theorem C5_resolver_witness:
  "getCoordinatesFromLocation ascii_toLowerCase offline_geocode (Some ''Shibuya, TOKYO'')
     = Inr tokyo_fallback
   \<and> getCoordinatesFromLocation ascii_toLowerCase offline_geocode (Some ''Atlantis'')
     = Inr default_location"
proof -
  have t: "sublist ''tokyo'' (ascii_toLowerCase ''Shibuya, TOKYO'')"
    "\<not> sublist ''new york'' (ascii_toLowerCase ''Shibuya, TOKYO'')"
    "\<not> sublist ''london'' (ascii_toLowerCase ''Shibuya, TOKYO'')"
    by (simp_all add: str_includes_sublist [symmetric] ascii_toLowerCase_def
        ascii_lower_char_def)
  have n: "\<forall>city \<in> set (map fst fallbackCities).
      \<not> sublist city (ascii_toLowerCase ''Atlantis'')"
    by (simp add: fallbackCities_def str_includes_sublist [symmetric] ascii_toLowerCase_def
        ascii_lower_char_def)
  show ?thesis
    using C5_resolver_fallback_chain [of ascii_toLowerCase offline_geocode "''Shibuya, TOKYO''"]
      C5_resolver_fallback_chain [of ascii_toLowerCase offline_geocode "''Atlantis''"] t n
    by (simp add: offline_geocode_def)
qed

text \<open>
  Claim C6.  The provider is a total function (it has no error result).  When the live
  forecast fails, for every latitude, longitude, date text and calendar, and all draws in
  \<open>[0, 1)\<close>, the object it returns is the fallback observation, every field a number, with
  precipitation at least 0 and humidity and cloud cover between 0 and 100.
\<close>

theorem C6_fallback_observation_in_sane_ranges:
  assumes "unit_draws ds" and "fc la lo d = None"
  shows "getNASAWeatherData fc gm ds la lo d = object_of (as_numbers (getNASAWeatherData fc gm ds la lo d))
       \<and> 0 \<le> precipitation (as_numbers (getNASAWeatherData fc gm ds la lo d))
       \<and> 0 \<le> humidity (as_numbers (getNASAWeatherData fc gm ds la lo d))
       \<and> humidity (as_numbers (getNASAWeatherData fc gm ds la lo d)) \<le> 100
       \<and> 0 \<le> cloudCover (as_numbers (getNASAWeatherData fc gm ds la lo d))
       \<and> cloudCover (as_numbers (getNASAWeatherData fc gm ds la lo d)) \<le> 100"
  using assms
  by (simp add: getNASAWeatherData_def generateFallbackData_def unit_draws_def unit_draw_def
      Let_def object_of_def as_numbers_def ToNumber_def)

theorem C6_fallback_witness:
  "unit_draws sample_draws \<and> offline_forecast 35 139 ''2025-07-04'' = None
   \<and> 0 \<le> precipitation (as_numbers
         (getNASAWeatherData offline_forecast july_calendar sample_draws 35 139 ''2025-07-04''))
   \<and> 0 \<le> humidity (as_numbers
         (getNASAWeatherData offline_forecast july_calendar sample_draws 35 139 ''2025-07-04''))
   \<and> humidity (as_numbers
         (getNASAWeatherData offline_forecast july_calendar sample_draws 35 139 ''2025-07-04''))
       \<le> 100
   \<and> 0 \<le> cloudCover (as_numbers
         (getNASAWeatherData offline_forecast july_calendar sample_draws 35 139 ''2025-07-04''))
   \<and> cloudCover (as_numbers
         (getNASAWeatherData offline_forecast july_calendar sample_draws 35 139 ''2025-07-04''))
       \<le> 100"
proof -
  have u: "unit_draws sample_draws"
    by (simp add: unit_draws_def unit_draw_def sample_draws_def)
  have f: "offline_forecast 35 139 ''2025-07-04'' = None"
    by (simp add: offline_forecast_def)
  show ?thesis
    using u f
      C6_fallback_observation_in_sane_ranges
        [of sample_draws offline_forecast 35 139 "''2025-07-04''" july_calendar]
    by blast
qed

section \<open>Properties of the narrative generator\<close>

lemma maxRisk_ge: "get_risk r k \<le> maxRisk r"
  by (cases k) (simp_all add: maxRisk_def le_max_iff_disj)

lemma maxRiskKey_first:
  "\<exists>k. maxRiskKey r = Some k \<and> get_risk r k = maxRisk r
       \<and> (\<forall>k'. key_position k' < key_position k \<longrightarrow> get_risk r k' < maxRisk r)"
proof -
  have le: "hot r \<le> maxRisk r" "cold r \<le> maxRisk r" "windy r \<le> maxRisk r" "wet r \<le> maxRisk r"
      "uncomfortable r \<le> maxRisk r"
    using maxRisk_ge [of r Hot] maxRisk_ge [of r Cold] maxRisk_ge [of r Windy]
      maxRisk_ge [of r Wet] maxRisk_ge [of r Uncomfortable] by simp_all
  have att: "hot r = maxRisk r \<or> cold r = maxRisk r \<or> windy r = maxRisk r \<or> wet r = maxRisk r
      \<or> uncomfortable r = maxRisk r"
    by (simp add: maxRisk_def max_def)
  consider (h) "hot r = maxRisk r"
    | (c) "hot r \<noteq> maxRisk r" "cold r = maxRisk r"
    | (wi) "hot r \<noteq> maxRisk r" "cold r \<noteq> maxRisk r" "windy r = maxRisk r"
    | (we) "hot r \<noteq> maxRisk r" "cold r \<noteq> maxRisk r" "windy r \<noteq> maxRisk r" "wet r = maxRisk r"
    | (u) "hot r \<noteq> maxRisk r" "cold r \<noteq> maxRisk r" "windy r \<noteq> maxRisk r" "wet r \<noteq> maxRisk r"
        "uncomfortable r = maxRisk r"
    using att by blast
  then show ?thesis
  proof cases
    case h
    then show ?thesis by (intro exI [of _ Hot]) (simp add: maxRiskKey_def risk_keys_def)
  next
    case c
    then have "get_risk r k' < maxRisk r" if "key_position k' < key_position Cold" for k'
      using that le by (cases k') simp_all
    with c show ?thesis
      by (intro exI [of _ Cold]) (simp add: maxRiskKey_def risk_keys_def)
  next
    case wi
    then have "get_risk r k' < maxRisk r" if "key_position k' < key_position Windy" for k'
      using that le by (cases k') simp_all
    with wi show ?thesis
      by (intro exI [of _ Windy]) (simp add: maxRiskKey_def risk_keys_def)
  next
    case we
    then have "get_risk r k' < maxRisk r" if "key_position k' < key_position Wet" for k'
      using that le by (cases k') simp_all
    with we show ?thesis
      by (intro exI [of _ Wet]) (simp add: maxRiskKey_def risk_keys_def)
  next
    case u
    then have "get_risk r k' < maxRisk r" if "key_position k' < key_position Uncomfortable" for k'
      using that le by (cases k') simp_all
    with u show ?thesis
      by (intro exI [of _ Uncomfortable]) (simp add: maxRiskKey_def risk_keys_def)
  qed
qed

lemma sub_skip: "sublist xs ys \<Longrightarrow> sublist xs (zs @ ys)"
  by (metis append_assoc sublist_def)

lemma sub_here: "prefix xs ys \<Longrightarrow> sublist xs ys"
  by (rule prefix_imp_sublist)

lemma favorable_figures:
  "sublist (temperature_figure w) (analysis_header w d @ favorable_text w e)"
  "sublist (wind_figure w) (analysis_header w d @ favorable_text w e)"
  "sublist (precipitation_figure w) (analysis_header w d @ favorable_text w e)"
  unfolding favorable_text_def temperature_figure_def wind_figure_def precipitation_figure_def
  by ((rule sub_here, (simp; fail)) | rule sub_skip)+

lemma moderate_figures:
  "sublist (temperature_figure w) (analysis_header w d @ moderate_text w e r)"
  "sublist (wind_figure w) (analysis_header w d @ moderate_text w e r)"
  "sublist (label_of (maxRiskKey r)) (analysis_header w d @ moderate_text w e r)"
  "sublist (percentage_figure r) (analysis_header w d @ moderate_text w e r)"
  unfolding moderate_text_def temperature_figure_def wind_figure_def percentage_figure_def
  by ((rule sub_here, (simp; fail)) | rule sub_skip)+

lemma high_figures:
  "sublist (temperature_figure w) (analysis_header w d @ high_text w e r)"
  "sublist (precipitation_figure w) (analysis_header w d @ high_text w e r)"
  "sublist (label_of (maxRiskKey r)) (analysis_header w d @ high_text w e r)"
  "sublist (percentage_figure r) (analysis_header w d @ high_text w e r)"
  unfolding high_text_def temperature_figure_def precipitation_figure_def percentage_figure_def
  by ((rule sub_here, (simp; fail)) | rule sub_skip)+


text \<open>
  Claim C7.  As stated the claim fails: below 30 the text shows neither the label of the
  category nor the percentage, and from 60 on it does not show the wind.
\<close>

theorem C7_label_counterexample:
  "maxRisk (calculateRisksFromRealData mild_weather ''hiking'') = 25
   \<and> maxRiskKey (calculateRisksFromRealData mild_weather ''hiking'') = Some Wet
   \<and> analysis (simulateGeminiAnalysis mild_weather ''hiking'' ''2025-07-04'')
       = analysis_header mild_weather ''2025-07-04'' @ check_mark_emoji
           @ '' Excellent conditions for hiking! All weather parameters are within optimal ranges. ''
           @ ''Temperature: 20'' @ degree_sign @ ''C, Wind: 2 km/h, Precipitation: 0.0mm.''
   \<and> \<not> sublist (riskLabels Wet)
         (analysis (simulateGeminiAnalysis mild_weather ''hiking'' ''2025-07-04''))
   \<and> \<not> sublist ''25%'' (analysis (simulateGeminiAnalysis mild_weather ''hiking'' ''2025-07-04''))
   \<and> maxRisk (calculateRisksFromRealData sample_weather ''picnic'') = 63
   \<and> analysis (simulateGeminiAnalysis sample_weather ''picnic'' ''2025-07-04'')
       = analysis_header sample_weather ''2025-07-04'' @ siren_emoji
           @ '' High risk of heavy precipitation for picnic! ''
           @ ''Strongly consider rescheduling due to 63% chance of adverse conditions. ''
           @ ''Forecast shows 31'' @ degree_sign @ ''C with 1.2mm precipitation.''
   \<and> wind_figure sample_weather = ''18 km/h''
   \<and> \<not> sublist (wind_figure sample_weather)
         (analysis (simulateGeminiAnalysis sample_weather ''picnic'' ''2025-07-04''))"
proof -
  have r: "calculateRisksFromRealData mild_weather ''hiking''
      = \<lparr> hot = 20, cold = 15, windy = 15, wet = 25, uncomfortable = 5 \<rparr>"
    by (simp add: calculateRisksFromRealData_def eventAdjustments_def baseRisks_def
        adjust_key_def mild_weather_def)
  have m: "maxRisk (calculateRisksFromRealData mild_weather ''hiking'') = 25"
    by (simp add: r maxRisk_def)
  have k: "maxRiskKey (calculateRisksFromRealData mild_weather ''hiking'') = Some Wet"
    by (simp add: r maxRiskKey_def maxRisk_def risk_keys_def)
  have t: "analysis (simulateGeminiAnalysis mild_weather ''hiking'' ''2025-07-04'')
       = analysis_header mild_weather ''2025-07-04'' @ check_mark_emoji
           @ '' Excellent conditions for hiking! All weather parameters are within optimal ranges. ''
           @ ''Temperature: 20'' @ degree_sign @ ''C, Wind: 2 km/h, Precipitation: 0.0mm.''"
  proof -
    have "favorable_text mild_weather ''hiking''
        = check_mark_emoji
           @ '' Excellent conditions for hiking! All weather parameters are within optimal ranges. ''
           @ ''Temperature: 20'' @ degree_sign @ ''C, Wind: 2 km/h, Precipitation: 0.0mm.''"
      by (simp add: favorable_text_def number_text_def Math_round_def toFixed1_def
          digits_of.simps digit_char_def mild_weather_def)
    then show ?thesis
      by (simp add: simulateGeminiAnalysis_def Let_def m)
  qed
  have n1: "\<not> sublist (riskLabels Wet)
      (analysis (simulateGeminiAnalysis mild_weather ''hiking'' ''2025-07-04''))"
    unfolding t
    by (simp add: str_includes_sublist [symmetric] analysis_header_def check_mark_emoji_def
        degree_sign_def newline_def mild_weather_def)
  have n2: "\<not> sublist ''25%''
      (analysis (simulateGeminiAnalysis mild_weather ''hiking'' ''2025-07-04''))"
    unfolding t
    by (simp add: str_includes_sublist [symmetric] analysis_header_def check_mark_emoji_def
        degree_sign_def newline_def mild_weather_def)
  have r': "calculateRisksFromRealData sample_weather ''picnic''
      = \<lparr> hot = 28, cold = 5, windy = 51, wet = 63, uncomfortable = 36 \<rparr>"
    by (simp add: calculateRisksFromRealData_def eventAdjustments_def baseRisks_def
        adjust_key_def sample_weather_def)
  have m': "maxRisk (calculateRisksFromRealData sample_weather ''picnic'') = 63"
    by (simp add: r' maxRisk_def)
  have k': "maxRiskKey (calculateRisksFromRealData sample_weather ''picnic'') = Some Wet"
    by (simp add: r' maxRiskKey_def maxRisk_def risk_keys_def)
  have t': "analysis (simulateGeminiAnalysis sample_weather ''picnic'' ''2025-07-04'')
       = analysis_header sample_weather ''2025-07-04'' @ siren_emoji
           @ '' High risk of heavy precipitation for picnic! ''
           @ ''Strongly consider rescheduling due to 63% chance of adverse conditions. ''
           @ ''Forecast shows 31'' @ degree_sign @ ''C with 1.2mm precipitation.''"
  proof -
    have "high_text sample_weather ''picnic'' (calculateRisksFromRealData sample_weather ''picnic'')
        = siren_emoji
           @ '' High risk of heavy precipitation for picnic! ''
           @ ''Strongly consider rescheduling due to 63% chance of adverse conditions. ''
           @ ''Forecast shows 31'' @ degree_sign @ ''C with 1.2mm precipitation.''"
      unfolding high_text_def k' m'
      by (simp add: label_of_def number_text_def Math_round_def toFixed1_def
          digits_of.simps digit_char_def sample_weather_def)
    then show ?thesis
      by (simp add: simulateGeminiAnalysis_def Let_def m')
  qed
  have w: "wind_figure sample_weather = ''18 km/h''"
    by (simp add: wind_figure_def number_text_def Math_round_def digits_of.simps digit_char_def
        sample_weather_def)
  have n3: "\<not> sublist (wind_figure sample_weather)
      (analysis (simulateGeminiAnalysis sample_weather ''picnic'' ''2025-07-04''))"
    unfolding t' w
    by (simp add: str_includes_sublist [symmetric] analysis_header_def siren_emoji_def
        degree_sign_def newline_def sample_weather_def)
  show ?thesis using m k t n1 n2 m' t' w n3 by blast
qed

text \<open>
  Claim C7, amended.  For every observation, event type and date the generator takes the
  largest of the five scores and the first key, in the order Hot, Cold, Windy, Wet,
  Uncomfortable, that has it.  The band is chosen by \<open>max < 30\<close>, \<open>30 \<le> max < 60\<close> and
  \<open>60 \<le> max\<close>.  The label of the category and the rounded percentage are shown from 30 on;
  the rounded temperature in every band, the rounded wind below 60, and the precipitation
  with one decimal below 30 and from 60 on.
\<close>

theorem C7_narrative_by_band:
  "risks (simulateGeminiAnalysis w e d) = calculateRisksFromRealData w e
   \<and> (\<forall>k. get_risk (calculateRisksFromRealData w e) k \<le> maxRisk (calculateRisksFromRealData w e))
   \<and> (\<exists>k. maxRiskKey (calculateRisksFromRealData w e) = Some k
          \<and> get_risk (calculateRisksFromRealData w e) k = maxRisk (calculateRisksFromRealData w e)
          \<and> (\<forall>k'. key_position k' < key_position k
                 \<longrightarrow> get_risk (calculateRisksFromRealData w e) k'
                       < maxRisk (calculateRisksFromRealData w e))
          \<and> (30 \<le> maxRisk (calculateRisksFromRealData w e)
               \<longrightarrow> sublist (riskLabels k) (analysis (simulateGeminiAnalysis w e d))))
   \<and> (maxRisk (calculateRisksFromRealData w e) < 30
        \<longrightarrow> analysis (simulateGeminiAnalysis w e d) = analysis_header w d @ favorable_text w e)
   \<and> (30 \<le> maxRisk (calculateRisksFromRealData w e) \<and> maxRisk (calculateRisksFromRealData w e) < 60
        \<longrightarrow> analysis (simulateGeminiAnalysis w e d)
              = analysis_header w d @ moderate_text w e (calculateRisksFromRealData w e))
   \<and> (60 \<le> maxRisk (calculateRisksFromRealData w e)
        \<longrightarrow> analysis (simulateGeminiAnalysis w e d)
              = analysis_header w d @ high_text w e (calculateRisksFromRealData w e))
   \<and> (30 \<le> maxRisk (calculateRisksFromRealData w e)
        \<longrightarrow> sublist (percentage_figure (calculateRisksFromRealData w e))
              (analysis (simulateGeminiAnalysis w e d)))
   \<and> sublist (temperature_figure w) (analysis (simulateGeminiAnalysis w e d))
   \<and> (maxRisk (calculateRisksFromRealData w e) < 60
        \<longrightarrow> sublist (wind_figure w) (analysis (simulateGeminiAnalysis w e d)))
   \<and> (maxRisk (calculateRisksFromRealData w e) < 30 \<or> 60 \<le> maxRisk (calculateRisksFromRealData w e)
        \<longrightarrow> sublist (precipitation_figure w) (analysis (simulateGeminiAnalysis w e d)))"
proof -
  define r where "r = calculateRisksFromRealData w e"
  define t where "t = analysis (simulateGeminiAnalysis w e d)"
  have fav: "t = analysis_header w d @ favorable_text w e" if "maxRisk r < 30"
    using that by (simp add: t_def r_def simulateGeminiAnalysis_def Let_def)
  have mod: "t = analysis_header w d @ moderate_text w e r" if "30 \<le> maxRisk r" "maxRisk r < 60"
    using that by (simp add: t_def r_def simulateGeminiAnalysis_def Let_def)
  have high: "t = analysis_header w d @ high_text w e r" if "60 \<le> maxRisk r"
    using that by (simp add: t_def r_def simulateGeminiAnalysis_def Let_def)
  have band: "maxRisk r < 30 \<or> (30 \<le> maxRisk r \<and> maxRisk r < 60) \<or> 60 \<le> maxRisk r"
    by linarith
  have temp: "sublist (temperature_figure w) t"
    using band fav mod high favorable_figures(1) moderate_figures(1) high_figures(1) by metis
  have wind: "sublist (wind_figure w) t" if "maxRisk r < 60"
    using that band fav mod favorable_figures(2) moderate_figures(2)
    by (metis not_le)
  have rain: "sublist (precipitation_figure w) t" if "maxRisk r < 30 \<or> 60 \<le> maxRisk r"
    using that fav high favorable_figures(3) high_figures(2) by metis
  have label: "sublist (label_of (maxRiskKey r)) t" if "30 \<le> maxRisk r"
    using that band mod high moderate_figures(3) high_figures(3)
    by (metis not_le)
  have pct: "sublist (percentage_figure r) t" if "30 \<le> maxRisk r"
    using that band mod high moderate_figures(4) high_figures(4)
    by (metis not_le)
  obtain k where k: "maxRiskKey r = Some k" "get_risk r k = maxRisk r"
      "\<forall>k'. key_position k' < key_position k \<longrightarrow> get_risk r k' < maxRisk r"
    using maxRiskKey_first [of r] by blast
  have klabel: "30 \<le> maxRisk r \<longrightarrow> sublist (riskLabels k) t"
    using label k(1) by (simp add: label_of_def)
  have first: "\<exists>k. maxRiskKey r = Some k \<and> get_risk r k = maxRisk r
          \<and> (\<forall>k'. key_position k' < key_position k \<longrightarrow> get_risk r k' < maxRisk r)
          \<and> (30 \<le> maxRisk r \<longrightarrow> sublist (riskLabels k) t)"
    using k klabel by blast
  have rk: "risks (simulateGeminiAnalysis w e d) = r"
    by (simp add: r_def simulateGeminiAnalysis_def Let_def)
  have ge: "\<forall>k. get_risk r k \<le> maxRisk r"
    by (simp add: maxRisk_ge)
  show ?thesis
    unfolding r_def [symmetric] t_def [symmetric]
    using rk ge first fav mod high pct temp wind rain by blast
qed

theorem C7_narrative_witness:
  "maxRisk (calculateRisksFromRealData sample_weather ''picnic'') = 63
   \<and> maxRiskKey (calculateRisksFromRealData sample_weather ''picnic'') = Some Wet
   \<and> analysis (simulateGeminiAnalysis sample_weather ''picnic'' ''2025-07-04'')
       = analysis_header sample_weather ''2025-07-04''
           @ high_text sample_weather ''picnic'' (calculateRisksFromRealData sample_weather ''picnic'')
   \<and> sublist ''heavy precipitation''
         (analysis (simulateGeminiAnalysis sample_weather ''picnic'' ''2025-07-04''))
   \<and> sublist ''63%'' (analysis (simulateGeminiAnalysis sample_weather ''picnic'' ''2025-07-04''))
   \<and> sublist (''31'' @ degree_sign @ ''C'')
         (analysis (simulateGeminiAnalysis sample_weather ''picnic'' ''2025-07-04''))
   \<and> sublist ''1.2mm'' (analysis (simulateGeminiAnalysis sample_weather ''picnic'' ''2025-07-04''))"
proof -
  have r: "calculateRisksFromRealData sample_weather ''picnic''
      = \<lparr> hot = 28, cold = 5, windy = 51, wet = 63, uncomfortable = 36 \<rparr>"
    by (simp add: calculateRisksFromRealData_def eventAdjustments_def baseRisks_def
        adjust_key_def sample_weather_def)
  have m: "maxRisk (calculateRisksFromRealData sample_weather ''picnic'') = 63"
    by (simp add: r maxRisk_def)
  have k: "maxRiskKey (calculateRisksFromRealData sample_weather ''picnic'') = Some Wet"
    by (simp add: r maxRiskKey_def maxRisk_def risk_keys_def)
  have p: "percentage_figure (calculateRisksFromRealData sample_weather ''picnic'') = ''63%''"
    by (simp add: percentage_figure_def m number_text_def Math_round_def digits_of.simps
        digit_char_def)
  have t: "temperature_figure sample_weather = ''31'' @ degree_sign @ ''C''"
    by (simp add: temperature_figure_def number_text_def Math_round_def digits_of.simps
        digit_char_def sample_weather_def)
  have f: "precipitation_figure sample_weather = ''1.2mm''"
    by (simp add: precipitation_figure_def toFixed1_def digits_of.simps digit_char_def
        sample_weather_def)
  note th = C7_narrative_by_band [of sample_weather "''picnic''" "''2025-07-04''"]
  have ge: "30 \<le> maxRisk (calculateRisksFromRealData sample_weather ''picnic'')"
    "60 \<le> maxRisk (calculateRisksFromRealData sample_weather ''picnic'')"
    by (simp_all add: m)
  have a: "analysis (simulateGeminiAnalysis sample_weather ''picnic'' ''2025-07-04'')
       = analysis_header sample_weather ''2025-07-04''
           @ high_text sample_weather ''picnic'' (calculateRisksFromRealData sample_weather ''picnic'')"
    using th ge by blast
  have "sublist (riskLabels Wet)
      (analysis (simulateGeminiAnalysis sample_weather ''picnic'' ''2025-07-04''))"
    using th k ge by auto
  then have lab: "sublist ''heavy precipitation''
      (analysis (simulateGeminiAnalysis sample_weather ''picnic'' ''2025-07-04''))"
    by simp
  have "sublist (percentage_figure (calculateRisksFromRealData sample_weather ''picnic''))
      (analysis (simulateGeminiAnalysis sample_weather ''picnic'' ''2025-07-04''))"
    using th ge by blast
  then have pct: "sublist ''63%''
      (analysis (simulateGeminiAnalysis sample_weather ''picnic'' ''2025-07-04''))"
    by (simp only: p)
  have "sublist (temperature_figure sample_weather)
      (analysis (simulateGeminiAnalysis sample_weather ''picnic'' ''2025-07-04''))"
    using th by blast
  then have tmp: "sublist (''31'' @ degree_sign @ ''C'')
      (analysis (simulateGeminiAnalysis sample_weather ''picnic'' ''2025-07-04''))"
    by (simp only: t)
  have "sublist (precipitation_figure sample_weather)
      (analysis (simulateGeminiAnalysis sample_weather ''picnic'' ''2025-07-04''))"
    using th ge by blast
  then have pre: "sublist ''1.2mm''
      (analysis (simulateGeminiAnalysis sample_weather ''picnic'' ''2025-07-04''))"
    by (simp only: f)
  show ?thesis
    using m k a lab pct tmp pre by blast
qed


section \<open>Properties of the dialogue controller\<close>

lemma some_keyword_has_keyword: "some_keyword kws m = has_keyword kws m"
  by (induction kws) (simp_all add: has_keyword_def str_includes_sublist)

lemma match_event_none:
  "(\<And>i. i < length tbl \<Longrightarrow> \<not> has_keyword (snd (tbl ! i)) m) \<Longrightarrow> match_event tbl m = None"
proof (induction tbl)
  case Nil
  then show ?case by simp
next
  case (Cons p tbl)
  obtain e kws where p: "p = (e, kws)" by (cases p)
  from Cons.prems [of 0] p have "\<not> some_keyword kws m"
    by (simp add: some_keyword_has_keyword)
  moreover have "match_event tbl m = None"
  proof (rule Cons.IH)
    fix i assume "i < length tbl"
    then show "\<not> has_keyword (snd (tbl ! i)) m" using Cons.prems [of "Suc i"] by simp
  qed
  ultimately show ?case using p by simp
qed

lemma match_event_first:
  "i < length tbl \<Longrightarrow> tbl ! i = (e, kws) \<Longrightarrow> has_keyword kws m
    \<Longrightarrow> (\<And>j. j < i \<Longrightarrow> \<not> has_keyword (snd (tbl ! j)) m) \<Longrightarrow> match_event tbl m = Some e"
proof (induction tbl arbitrary: i)
  case Nil
  then show ?case by simp
next
  case (Cons p tbl)
  obtain e' kws' where p: "p = (e', kws')" by (cases p)
  show ?case
  proof (cases i)
    case 0
    with Cons.prems p show ?thesis by (simp add: some_keyword_has_keyword)
  next
    case (Suc i')
    with Cons.prems(4) [of 0] p have "\<not> some_keyword kws' m"
      by (simp add: some_keyword_has_keyword)
    moreover have "match_event tbl m = Some e"
    proof (rule Cons.IH [of i'])
      show "i' < length tbl" using Cons.prems(1) Suc by simp
      show "tbl ! i' = (e, kws)" using Cons.prems(2) Suc by simp
      show "has_keyword kws m" by (rule Cons.prems(3))
      fix j assume "j < i'"
      then show "\<not> has_keyword (snd (tbl ! j)) m" using Cons.prems(4) [of "Suc j"] Suc by simp
    qed
    ultimately show ?thesis using p by simp
  qed
qed

lemma going_hiking:
  "lowers_ascii lower \<Longrightarrow> match_event eventMap (lower ''I'm going hiking'') = Some ''hiking''"
proof -
  assume "lowers_ascii lower"
  moreover have "ascii_only ''I'm going hiking''"
    by (simp add: ascii_only_def)
  ultimately have "lower ''I'm going hiking'' = ascii_toLowerCase ''I'm going hiking''"
    by (simp add: lowers_ascii_def)
  then show ?thesis
    by (simp add: eventMap_def ascii_toLowerCase_def ascii_lower_char_def)
qed

text \<open>
  Claim C4.  In stage \<open>event\<close> the message is put in lower case and the first entry of the
  keyword table, in the order vacation, hiking, fishing, picnic, sports, camping, that has a
  keyword inside the lower-case message sets the event type and moves the stage to
  \<open>location\<close>; the message \<open>I'm going hiking\<close> gives hiking; a message with no keyword of any
  entry leaves the state as it is.  This holds whatever \<open>toLowerCase\<close> does beyond ASCII, and
  for the state \<open>prev\<close> the change is applied to, the state of the sending render included.
\<close>

theorem C4_first_matching_activity_wins:
  assumes "stage closure = StageEvent"
  shows "(\<forall>i e kws. i < length eventMap \<and> eventMap ! i = (e, kws)
            \<and> has_keyword kws (lower msg)
            \<and> (\<forall>j < i. \<not> has_keyword (snd (eventMap ! j)) (lower msg))
          \<longrightarrow> fst (processMessage lower rnd closure msg) prev
                = prev\<lparr>eventType := Some e, stage := StageLocation\<rparr>)
       \<and> ((\<forall>entry \<in> set eventMap. \<not> has_keyword (snd entry) (lower msg))
          \<longrightarrow> fst (processMessage lower rnd closure msg) prev = prev)
       \<and> (lowers_ascii lower
          \<longrightarrow> fst (processMessage lower rnd closure ''I'm going hiking'') prev
                = prev\<lparr>eventType := Some ''hiking'', stage := StageLocation\<rparr>)
       \<and> map fst eventMap
           = [''vacation'', ''hiking'', ''fishing'', ''picnic'', ''sports'', ''camping'']"
proof (intro conjI allI impI)
  fix i e kws
  assume a: "i < length eventMap \<and> eventMap ! i = (e, kws)
            \<and> has_keyword kws (lower msg)
            \<and> (\<forall>j < i. \<not> has_keyword (snd (eventMap ! j)) (lower msg))"
  then have "match_event eventMap (lower msg) = Some e"
    by (intro match_event_first [of i eventMap e kws]) simp_all
  then show "fst (processMessage lower rnd closure msg) prev
      = prev\<lparr>eventType := Some e, stage := StageLocation\<rparr>"
    using assms by (simp add: processMessage_def)
next
  assume "\<forall>entry \<in> set eventMap. \<not> has_keyword (snd entry) (lower msg)"
  then have "match_event eventMap (lower msg) = None"
    by (intro match_event_none) simp
  then show "fst (processMessage lower rnd closure msg) prev = prev"
    using assms by (simp add: processMessage_def)
next
  assume "lowers_ascii lower"
  then show "fst (processMessage lower rnd closure ''I'm going hiking'') prev
           = prev\<lparr>eventType := Some ''hiking'', stage := StageLocation\<rparr>"
    using assms going_hiking [of lower] by (simp add: processMessage_def)
next
  show "map fst eventMap
           = [''vacation'', ''hiking'', ''fishing'', ''picnic'', ''sports'', ''camping'']"
    by (simp add: eventMap_def)
qed

theorem C4_first_match_witness:
  "stage initialChatState = StageEvent \<and> lowers_ascii ascii_toLowerCase
   \<and> fst (processMessage ascii_toLowerCase First initialChatState
            ''Trail run, then FISHING in the park'') initialChatState
       = initialChatState\<lparr>eventType := Some ''hiking'', stage := StageLocation\<rparr>
   \<and> fst (processMessage ascii_toLowerCase First initialChatState ''I want to go skydiving'')
         initialChatState
       = initialChatState
   \<and> fst (processMessage ascii_toLowerCase First initialChatState ''I'm going hiking'')
         initialChatState
       = initialChatState\<lparr>eventType := Some ''hiking'', stage := StageLocation\<rparr>"
proof -
  have s: "stage initialChatState = StageEvent"
    by (simp add: initialChatState_def)
  have l: "ascii_toLowerCase ''Trail run, then FISHING in the park''
      = ''trail run, then fishing in the park''"
    by (simp add: ascii_toLowerCase_def ascii_lower_char_def)
  have m: "(1 :: nat) < length eventMap
      \<and> eventMap ! 1 = (''hiking'', [''hike'', ''hiking'', ''trail'', ''trek'', ''mountain''])
      \<and> has_keyword [''hike'', ''hiking'', ''trail'', ''trek'', ''mountain'']
          (ascii_toLowerCase ''Trail run, then FISHING in the park'')
      \<and> (\<forall>j < 1. \<not> has_keyword (snd (eventMap ! j))
            (ascii_toLowerCase ''Trail run, then FISHING in the park''))"
    unfolding l
    by (simp add: eventMap_def has_keyword_def str_includes_sublist [symmetric])
  have n: "\<forall>entry \<in> set eventMap.
      \<not> has_keyword (snd entry) (ascii_toLowerCase ''I want to go skydiving'')"
    by (simp add: eventMap_def has_keyword_def str_includes_sublist [symmetric]
        ascii_toLowerCase_def ascii_lower_char_def)
  show ?thesis
    using s m n lowers_ascii_ascii
      C4_first_matching_activity_wins
        [OF s, of ascii_toLowerCase "''Trail run, then FISHING in the park''" First
          initialChatState]
      C4_first_matching_activity_wins
        [OF s, of ascii_toLowerCase "''I want to go skydiving''" First initialChatState]
    by blast
qed

section \<open>Properties of the report pipeline\<close>

lemma analyzeWithGemini_number:
  "o_precipitation obj \<noteq> None \<Longrightarrow>
     analyzeWithGemini obj e d = Inr (simulateGeminiAnalysis (as_numbers obj) e d)"
  by (simp add: analyzeWithGemini_def simulateGeminiAnalysis_rt_def Let_def)

lemma report_attempt_fails_iff:
  "isl (report_attempt lower world s d) =
     (case getCoordinatesFromLocation lower (geocode world) (location s) of
        Inl err \<Rightarrow> True
      | Inr coords \<Rightarrow>
          o_precipitation
            (getNASAWeatherData (forecast world) (getMonth world) (draws world)
               (c_lat coords) (c_lon coords) d) = None)"
proof (cases "getCoordinatesFromLocation lower (geocode world) (location s)")
  case (Inl err)
  then show ?thesis by (simp add: report_attempt_def)
next
  case (Inr coords)
  define obj where "obj = getNASAWeatherData (forecast world) (getMonth world) (draws world)
      (c_lat coords) (c_lon coords) d"
  show ?thesis
  proof (cases "o_precipitation obj")
    case None
    then have "isl (report_attempt lower world s d)"
      using Inr
      by (simp add: report_attempt_def obj_def [symmetric] report_text_rt_def Let_def
          split: sum.split)
    then show ?thesis using Inr None by (simp add: obj_def)
  next
    case (Some p)
    then have "\<not> isl (report_attempt lower world s d)"
      using Inr
      by (simp add: report_attempt_def obj_def [symmetric] report_text_rt_def Let_def
          analyzeWithGemini_number)
    then show ?thesis using Inr Some by (simp add: obj_def)
  qed
qed

lemma report_sets_timer:
  "snd (generateRealWeatherReport lower world s d) = (\<not> isl (report_attempt lower world s d))"
  by (simp add: generateRealWeatherReport_def split: sum.split)

section \<open>Evaluating a run\<close>

lemma processMessage_event:
  "stage cl = StageEvent \<Longrightarrow> match_event eventMap (lower m) = Some e \<Longrightarrow>
     processMessage lower rnd cl m
       = (\<lambda>prev. prev\<lparr>eventType := Some e, stage := StageLocation\<rparr>,
          [pick rnd (event_responses e)], None)"
  by (simp add: processMessage_def)

lemma processMessage_location:
  "stage cl = StageLocation \<Longrightarrow>
     processMessage lower rnd cl m
       = (\<lambda>prev. prev\<lparr>location := Some m, stage := StageDate\<rparr>,
          [pick rnd (location_responses m)], None)"
  by (simp add: processMessage_def)

lemma processMessage_date:
  "stage cl = StageDate \<Longrightarrow>
     processMessage lower rnd cl m = (\<lambda>prev. prev\<lparr>date := Some m\<rparr>, [accessing_text], Some m)"
  by (simp add: processMessage_def)

lemma match_hiking: "match_event eventMap (ascii_toLowerCase ''hiking'') = Some ''hiking''"
  by (simp add: eventMap_def ascii_toLowerCase_def ascii_lower_char_def)

lemma run_task_Process:
  "run_task lower rnd world network due (Process cl m) c =
     (case processMessage lower rnd cl m of
        (update, texts, report) \<Rightarrow>
          c\<lparr>current := update (current c),
            timers := timers c
              @ (case report of Some d \<Rightarrow> [(due + 3500, Report cl d)] | None \<Rightarrow> [])\<rparr>)"
  by (simp add: run_task_def)

lemma run_task_Report:
  "run_task lower rnd world network due (Report cl d) c =
     (if isl (report_attempt lower world cl d) then c
      else c\<lparr>timers := timers c @ [(due + network + 3200, Reset)]\<rparr>)"
  by (simp add: run_task_def report_sets_timer)

lemma run_task_Reset:
  "run_task lower rnd world network due Reset c = c\<lparr>current := initialChatState\<rparr>"
  by (simp add: run_task_def)

lemma apply_event_Send:
  "apply_event lower (Send t m) c =
     (if user_may_act t c
      then Some (c\<lparr>now := t, timers := timers c @ [(t + 300, Process (current c) m)]\<rparr>)
      else None)"
  by (simp add: apply_event_def)

lemma apply_event_Timer:
  "apply_event lower (Timer rnd world network) c =
     (case pop_earliest (timers c) of
        None \<Rightarrow> None
      | Some ((due, k), rest) \<Rightarrow>
          Some (run_task lower rnd world network due k (c\<lparr>now := due, timers := rest\<rparr>)))"
  by (simp add: apply_event_def)

lemma offline_report_succeeds:
  "location cl = Some l \<Longrightarrow> \<not> isl (report_attempt lower offline_world cl d)"
  by (simp add: report_attempt_fails_iff getCoordinatesFromLocation_def offline_world_def
      offline_geocode_def getNASAWeatherData_def offline_forecast_def object_of_def)

lemma null_rain_report_fails:
  "location cl = Some l \<Longrightarrow> isl (report_attempt lower null_rain_world cl d)"
  by (simp add: report_attempt_fails_iff getCoordinatesFromLocation_def null_rain_world_def
      offline_geocode_def getNASAWeatherData_def null_rain_forecast_def)

lemmas run_simps =
  apply_event_Send apply_event_Timer user_may_act_def run_task_Process run_task_Report
  run_task_Reset processMessage_event processMessage_location processMessage_date match_hiking
  offline_report_succeeds null_rain_report_fails start_def initialChatState_def

text \<open>
  Claim C3.  As stated the claim fails: after a failed report the state is the one of the
  date turn, not the initial one, and nothing is pending that would reset it.  The user
  gives an activity, a place and a date; the forecast answers with \<open>null\<close> for the
  precipitation, and \<open>toFixed\<close> throws.
\<close>

theorem C3_reset_counterexample:
  "isl (report_attempt ascii_toLowerCase null_rain_world (paris_hike\<lparr>date := None\<rparr>) ''2025-07-04'')
   \<and> generateRealWeatherReport ascii_toLowerCase null_rain_world (paris_hike\<lparr>date := None\<rparr>)
         ''2025-07-04''
       = ([botMessage connecting_text, botMessage error_text], False)
   \<and> run ascii_toLowerCase failing_turns start
       = Some \<lparr> now = 5800, current = paris_hike, timers = [] \<rparr>
   \<and> stage paris_hike = StageDate
   \<and> paris_hike \<noteq> initialChatState"
proof -
  have f: "isl (report_attempt ascii_toLowerCase null_rain_world (paris_hike\<lparr>date := None\<rparr>)
      ''2025-07-04'')"
    by (simp add: null_rain_report_fails paris_hike_def)
  then have g: "generateRealWeatherReport ascii_toLowerCase null_rain_world
      (paris_hike\<lparr>date := None\<rparr>) ''2025-07-04''
       = ([botMessage connecting_text, botMessage error_text], False)"
    by (cases "report_attempt ascii_toLowerCase null_rain_world (paris_hike\<lparr>date := None\<rparr>)
        ''2025-07-04''") (simp_all add: generateRealWeatherReport_def)
  have r: "run ascii_toLowerCase failing_turns start
       = Some \<lparr> now = 5800, current = paris_hike, timers = [] \<rparr>"
    by (simp add: failing_turns_def paris_hike_def run_simps)
  have s: "stage paris_hike = StageDate" "paris_hike \<noteq> initialChatState"
    by (simp_all add: paris_hike_def initialChatState_def)
  show ?thesis using f g r s by blast
qed

text \<open>
  Claim C3, amended.  When the pipeline fails (an error leaves the \<open>try\<close> block: the
  resolver throws on a missing location, or \<open>toFixed\<close> throws on a \<open>null\<close> precipitation),
  the messages added are the status line and one error message, none of them carries a
  risk profile or data sources, no reset is set up, and the conversation state and the
  pending timers are left as they were.
\<close>

theorem C3_failed_report_keeps_state:
  assumes "isl (report_attempt lower world closure d)"
  shows "generateRealWeatherReport lower world closure d
           = ([botMessage connecting_text, botMessage error_text], False)
       \<and> length (filter (\<lambda>m. m_text m = error_text)
            (fst (generateRealWeatherReport lower world closure d))) = 1
       \<and> (\<forall>m \<in> set (fst (generateRealWeatherReport lower world closure d)).
             m_riskData m = None \<and> m_dataSources m = None)
       \<and> run_task lower rnd world network due (Report closure d) c = c"
proof -
  have ne: "connecting_text \<noteq> error_text"
    by (simp add: connecting_text_def error_text_def antenna_emoji_def)
  from assms obtain err where "report_attempt lower world closure d = Inl err"
    by (cases "report_attempt lower world closure d") simp_all
  then have g: "generateRealWeatherReport lower world closure d
      = ([botMessage connecting_text, botMessage error_text], False)"
    by (simp add: generateRealWeatherReport_def)
  then have "run_task lower rnd world network due (Report closure d) c = c"
    by (simp add: run_task_def)
  with g ne show ?thesis
    by (simp add: botMessage_def)
qed

theorem C3_failed_report_witness:
  "isl (report_attempt ascii_toLowerCase null_rain_world (paris_hike\<lparr>date := None\<rparr>) ''2025-07-04'')
   \<and> length (filter (\<lambda>m. m_text m = error_text)
        (fst (generateRealWeatherReport ascii_toLowerCase null_rain_world
                (paris_hike\<lparr>date := None\<rparr>) ''2025-07-04''))) = 1
   \<and> run_task ascii_toLowerCase First null_rain_world 250 5800
        (Report (paris_hike\<lparr>date := None\<rparr>) ''2025-07-04'')
        \<lparr> now = 5800, current = paris_hike, timers = [] \<rparr>
       = \<lparr> now = 5800, current = paris_hike, timers = [] \<rparr>"
proof -
  have f: "isl (report_attempt ascii_toLowerCase null_rain_world (paris_hike\<lparr>date := None\<rparr>)
      ''2025-07-04'')"
    by (simp add: null_rain_report_fails paris_hike_def)
  show ?thesis
    using f C3_failed_report_keeps_state [OF f] by blast
qed

section \<open>Overlapping turns\<close>

lemma processMessage_invariant:
  "state_invariant s \<Longrightarrow> state_invariant (fst (processMessage lower rnd s m) s)"
  by (cases "stage s")
    (auto simp: processMessage_def state_invariant_def Let_def split: option.splits)

text \<open>
  Claim C9.  The invariant is what the code means to keep: applied to the state of the
  sending render, every branch of \<open>processMessage\<close> keeps it (lemma above), and lines 345 and
  351 assert with \<open>!\<close> that location and event type are set when a report runs.  But the
  branch is chosen by the state of the sending render while the change is applied, 300 ms
  later, to the state of that moment, and a reset from an earlier report can fall in
  between.  The run \<open>overlapping_turns\<close> ends in stage \<open>date\<close> with a location and no event
  type.
\<close>

theorem C9_overlapping_turns_break_invariant:
  "run ascii_toLowerCase overlapping_turns start
     = Some \<lparr> now = 10100,
              current = \<lparr> stage = StageDate, eventType = None, location = Some ''Tokyo'',
                          date = None \<rparr>,
              timers = [] \<rparr>
   \<and> \<not> state_invariant
         \<lparr> stage = StageDate, eventType = None, location = Some ''Tokyo'', date = None \<rparr>"
proof -
  have r: "run ascii_toLowerCase overlapping_turns start
     = Some \<lparr> now = 10100,
              current = \<lparr> stage = StageDate, eventType = None, location = Some ''Tokyo'',
                          date = None \<rparr>,
              timers = [] \<rparr>"
    by (simp add: overlapping_turns_def run_simps)
  show ?thesis using r by (simp add: state_invariant_def)
qed

section \<open>Properties of the calls among the objects of the program\<close>

lemma fold_adjust_property:
  "objects a ref = r \<Longrightarrow>
     fold (adjust_property adj ref) ks a
       = a\<lparr>objects := (objects a)(ref := fold (adjust_key adj) ks r)\<rparr>"
proof (induction ks arbitrary: a r)
  case Nil
  then have "(objects a)(ref := r) = objects a"
    by auto
  then show ?case by simp
next
  case (Cons k ks)
  have upd: "adjust_property adj ref k a = a\<lparr>objects := (objects a)(ref := adjust_key adj k r)\<rparr>"
    using Cons.prems
    by (simp add: adjust_property_def set_property_def get_property_def adjust_key_def)
  then have "objects (adjust_property adj ref k a) ref = adjust_key adj k r"
    by simp
  from Cons.IH [OF this]
  have "fold (adjust_property adj ref) ks (adjust_property adj ref k a)
      = (adjust_property adj ref k a)
          \<lparr>objects := (objects (adjust_property adj ref k a))
             (ref := fold (adjust_key adj) ks (adjust_key adj k r))\<rparr>" .
  also have "\<dots> = a\<lparr>objects := (objects a)(ref := fold (adjust_key adj) ks (adjust_key adj k r))\<rparr>"
    unfolding upd by simp
  finally show ?case by (simp only: fold_Cons comp_apply)
qed

lemma calculateRisks_amb_eq:
  "calculateRisks_amb w e a =
     (next_ref a,
      a\<lparr>objects := (objects a)(next_ref a := calculateRisksFromRealData w e),
        next_ref := Suc (next_ref a)\<rparr>)"
proof -
  define a1 where
    "a1 = a\<lparr>objects := (objects a)(next_ref a := baseRisks w), next_ref := Suc (next_ref a)\<rparr>"
  have "objects a1 (next_ref a) = baseRisks w"
    by (simp add: a1_def)
  from fold_adjust_property [OF this] show ?thesis
    by (simp add: calculateRisks_amb_def new_object_def calculateRisksFromRealData_def Let_def
        a1_def)
qed

lemma simulateGeminiAnalysis_amb_eq:
  "simulateGeminiAnalysis_amb w e d a =
     ((next_ref a, analysis (simulateGeminiAnalysis w e d),
       dataSources (simulateGeminiAnalysis w e d)),
      a\<lparr>objects := (objects a)(next_ref a := calculateRisksFromRealData w e),
        next_ref := Suc (next_ref a)\<rparr>)"
  by (simp add: simulateGeminiAnalysis_amb_def calculateRisks_amb_eq simulateGeminiAnalysis_def
      Let_def)

text \<open>
  The same reading tells the randomised function apart: two sources of random numbers
  give two observations.
\<close>

lemma fallback_reads_the_random_source:
  "fst (generateFallbackData_amb july_calendar 35 139 ''2025-07-04'' ambient_one)
     \<noteq> fst (generateFallbackData_amb july_calendar 35 139 ''2025-07-04'' ambient_two)
   \<and> drawn (snd (generateFallbackData_amb july_calendar 35 139 ''2025-07-04'' ambient_one)) = 5"
  by (simp add: generateFallbackData_amb_def Math_random_def generateFallbackData_def Let_def
      ambient_one_def ambient_two_def)

text \<open>
  Claim C8.  Read among the objects of the program, with the source of random numbers and
  the conversation state at hand, a call of the scorer or of the generator gives the same
  result whatever they hold: the profile is that of the observation and the event type, the
  text and the sources are those of the observation, the event type and the date.  A
  second call with the same arguments, made after the first, returns another object with
  the same content and leaves the first one as it was.  A call takes no random number and
  leaves the conversation state and every older object as they were.
\<close>

theorem C8_scorer_and_generator_deterministic:
  "returned (calculateRisks_amb w e a) = returned (calculateRisks_amb w e a')
   \<and> returned (calculateRisks_amb w e a) = calculateRisksFromRealData w e
   \<and> (case calculateRisks_amb w e a of
        (ref1, a1) \<Rightarrow>
          (case calculateRisks_amb w e a1 of
             (ref2, a2) \<Rightarrow>
               ref1 \<noteq> ref2 \<and> objects a2 ref2 = objects a1 ref1
               \<and> objects a2 ref1 = objects a1 ref1))
   \<and> snd (fst (simulateGeminiAnalysis_amb w e d a))
       = snd (fst (simulateGeminiAnalysis_amb w e d a'))
   \<and> snd (fst (simulateGeminiAnalysis_amb w e d a))
       = (analysis (simulateGeminiAnalysis w e d), dataSources (simulateGeminiAnalysis w e d))
   \<and> (case simulateGeminiAnalysis_amb w e d a of
        (out1, a1) \<Rightarrow>
          (case simulateGeminiAnalysis_amb w e d a1 of
             (out2, a2) \<Rightarrow>
               snd out1 = snd out2 \<and> fst out1 \<noteq> fst out2
               \<and> objects a2 (fst out2) = objects a2 (fst out1)))
   \<and> snd (simulateGeminiAnalysis_amb w e d a)
       = a\<lparr>objects := (objects a)(next_ref a := calculateRisksFromRealData w e),
           next_ref := Suc (next_ref a)\<rparr>
   \<and> snd (calculateRisks_amb w e a)
       = a\<lparr>objects := (objects a)(next_ref a := calculateRisksFromRealData w e),
           next_ref := Suc (next_ref a)\<rparr>"
  by (simp add: calculateRisks_amb_eq simulateGeminiAnalysis_amb_eq returned_def)

end
